theory Spec2Isabelle
  imports Main
begin

section \<open>Host effects and persisted state\<close>

text \<open>
  The module is glue over the editor host: it shows messages, runs host commands, reads and
  deletes marker files and opens links. Each such effect is recorded, in program order, as an
  event of the trace; the file system and the persisted state are fields of the world.
\<close>

datatype Uri = Uri_file (fsPath: string)

datatype WorkspaceFolder = WorkspaceFolder (uri: Uri)

datatype arg = Str string | UriArg Uri | Undefined

datatype event =
    ShowInformationMessage string "string list"
  | ShowErrorMessage string
  | ExecuteCommand string "arg list"
  | UnlinkSync string
  | OpenInBrowser string

text \<open>
  The first four fields are the \<open>Context\<close> object: the generic key-value store behind
  \<open>context.get\<close> and \<open>context.update\<close>, and the three fields of the devtools
  notification. \<open>files\<close> maps the path of each existing regular file to its text.
\<close>

record world =
  globalState :: "string \<rightharpoonup> bool"
  devToolsNotificationLastShown :: "int option"
  devToolsNotificationsShown :: int
  devToolsNotificationDoNotShow :: bool
  files :: "string \<rightharpoonup> string"
  trace :: "event list"

definition emit :: "event \<Rightarrow> world \<Rightarrow> world" where
  "emit ev w = w\<lparr>trace := trace w @ [ev]\<rparr>"

text \<open>The outcome of an awaited host promise: a value, or a rejection with the error's message.\<close>

datatype 'a outcome = Resolved 'a | Rejected string

section \<open>The devtools notification\<close>

text \<open>
  The prompt text and the three button labels come from the constants module, which is not
  part of the sources at hand; they are parameters.
\<close>

record constants =
  wantToTryDevToolsPrompt :: string
  openDevToolsAction :: string
  noThanksAction :: string
  doNotAskAgainAction :: string

text \<open>
  Modelled from the spec: the constant \<open>noRepeatPromptThreshold\<close> of the constants module,
  which the spec fixes at 20 hours; timestamps are epoch milliseconds.
\<close>

definition noRepeatPromptThreshold :: int where
  "noRepeatPromptThreshold = 1000 * 60 * 60 * 20"

text \<open>
  The function up to its \<open>await\<close>. \<open>now1\<close> and \<open>now2\<close> are the two readings of
  \<open>Date.now()\<close>. The result \<open>Some b\<close> is an early \<open>return b\<close>; \<open>None\<close> means the
  message is on screen and the function is suspended until the user chooses.
  The guard \<open>lastShown && ...\<close> is JavaScript truthiness: an absent timestamp and the
  number 0 both skip the comparison.
\<close>

definition showDevToolsNotificationIfAppropriate_sync ::
  "constants \<Rightarrow> int \<Rightarrow> int \<Rightarrow> world \<Rightarrow> bool option \<times> world" where
  "showDevToolsNotificationIfAppropriate_sync c now1 now2 w =
    (let lastShown = devToolsNotificationLastShown w;
         timesShown = devToolsNotificationsShown w;
         doNotShow = devToolsNotificationDoNotShow w
     in if doNotShow \<or> timesShown \<ge> 10 then (Some False, w)
        else if (case lastShown of None \<Rightarrow> False
                 | Some t \<Rightarrow> t \<noteq> 0 \<and> now1 - t < noRepeatPromptThreshold)
          then (Some False, w)
        else (None,
          emit (ShowInformationMessage (wantToTryDevToolsPrompt c)
                  [openDevToolsAction c, noThanksAction c, doNotAskAgainAction c])
            (w\<lparr>devToolsNotificationsShown := devToolsNotificationsShown w + 1,
               devToolsNotificationLastShown := Some now2\<rparr>)))"

text \<open>
  The rest of the function, run when the message resolves with the clicked label
  (\<open>None\<close> when the message is dismissed), on the world as it is then.
\<close>

definition showDevToolsNotificationIfAppropriate_resume ::
  "constants \<Rightarrow> string option \<Rightarrow> world \<Rightarrow> bool \<times> world" where
  "showDevToolsNotificationIfAppropriate_resume c choice w =
    (if choice = Some (doNotAskAgainAction c)
       then (False, w\<lparr>devToolsNotificationDoNotShow := True\<rparr>)
     else if choice = Some (openDevToolsAction c)
       then (True, emit (ExecuteCommand ''dart.openDevTools'' []) w)
     else (False, w))"

definition showDevToolsNotificationIfAppropriate ::
  "constants \<Rightarrow> int \<Rightarrow> int \<Rightarrow> string option \<Rightarrow> world \<Rightarrow> bool \<times> world" where
  "showDevToolsNotificationIfAppropriate c now1 now2 choice w =
    (case showDevToolsNotificationIfAppropriate_sync c now1 now2 w of
       (Some r, w') \<Rightarrow> (r, w')
     | (None, w') \<Rightarrow> showDevToolsNotificationIfAppropriate_resume c choice w')"

text \<open>A sequence of complete calls, each with its two clock readings and the user's choice.\<close>

fun devToolsCalls ::
  "constants \<Rightarrow> (int \<times> int \<times> string option) list \<Rightarrow> world \<Rightarrow> bool list \<times> world" where
  "devToolsCalls c [] w = ([], w)"
| "devToolsCalls c ((now1, now2, choice) # cs) w =
    (case showDevToolsNotificationIfAppropriate c now1 now2 choice w of
       (r, w') \<Rightarrow> (case devToolsCalls c cs w' of (rs, w'') \<Rightarrow> (r # rs, w'')))"

section \<open>JavaScript string operations\<close>

text \<open>
  \<open>String.prototype.trim\<close> strips white space and line terminators from both ends; of
  these, the characters below are the ones a \<open>char\<close> can hold.
\<close>

definition is_js_whitespace :: "char \<Rightarrow> bool" where
  "is_js_whitespace ch \<longleftrightarrow>
     ch \<in> {CHR 0x09, CHR 0x0A, CHR 0x0B, CHR 0x0C, CHR 0x0D, CHR 0x20, CHR 0xA0}"

definition js_trim :: "string \<Rightarrow> string" where
  "js_trim s = rev (dropWhile is_js_whitespace (rev (dropWhile is_js_whitespace s)))"

text \<open>The text before and after the first occurrence of a pattern, if there is one.\<close>

fun split_first :: "string \<Rightarrow> string \<Rightarrow> (string \<times> string) option" where
  "split_first pat [] = (if pat = [] then Some ([], []) else None)"
| "split_first pat (x # xs) =
     (if take (length pat) (x # xs) = pat then Some ([], drop (length pat) (x # xs))
      else (case split_first pat xs of
              None \<Rightarrow> None
            | Some (pre, post) \<Rightarrow> Some (x # pre, post)))"

text \<open>
  \<open>String.prototype.replace\<close> with a string pattern replaces the first occurrence only, and
  expands the replacement text first: \<open>$$\<close> is a dollar sign, \<open>$&\<close> the matched text,
  \<open>$`\<close> the text before the match and \<open>$'\<close> the text after it. With a string pattern
  there are no capture groups, so every other dollar sign stands for itself.
\<close>

fun getSubstitution :: "string \<Rightarrow> string \<Rightarrow> string \<Rightarrow> string \<Rightarrow> string" where
  "getSubstitution matched pre post (x # y # r) =
     (if x = CHR ''$'' \<and> y = CHR ''$'' then CHR ''$'' # getSubstitution matched pre post r
      else if x = CHR ''$'' \<and> y = CHR ''&'' then matched @ getSubstitution matched pre post r
      else if x = CHR ''$'' \<and> y = CHR 0x60 then pre @ getSubstitution matched pre post r
      else if x = CHR ''$'' \<and> y = CHR 0x27 then post @ getSubstitution matched pre post r
      else x # getSubstitution matched pre post (y # r))"
| "getSubstitution matched pre post r = r"

definition js_replace :: "string \<Rightarrow> string \<Rightarrow> string \<Rightarrow> string" where
  "js_replace s pat replacement =
     (case split_first pat s of
        None \<Rightarrow> s
      | Some (pre, post) \<Rightarrow> pre @ getSubstitution pat pre post replacement @ post)"

text \<open>\<open>split\<close> at a one-character separator, and \<open>join\<close>.\<close>

fun js_split :: "char \<Rightarrow> string \<Rightarrow> string list" where
  "js_split sep [] = [[]]"
| "js_split sep (x # xs) =
     (if x = sep then [] # js_split sep xs
      else (case js_split sep xs of
              [] \<Rightarrow> [[x]]
            | part # parts \<Rightarrow> (x # part) # parts))"

fun js_join :: "string \<Rightarrow> string list \<Rightarrow> string" where
  "js_join sep [] = []"
| "js_join sep [x] = x"
| "js_join sep (x # y # r) = x @ sep @ js_join sep (y # r)"

text \<open>
  The claim about the entry file speaks of replacing the placeholder with the base name.
  This is that replacement taken literally (first occurrence, replacement text inserted as
  it is), to be compared with \<open>js_replace\<close>.
\<close>

definition replace_literally :: "string \<Rightarrow> string \<Rightarrow> string \<Rightarrow> string" where
  "replace_literally s pat replacement =
     (case split_first pat s of
        None \<Rightarrow> s
      | Some (pre, post) \<Rightarrow> pre @ replacement @ post)"

section \<open>The environment of the module\<close>

record StagehandTemplate =
  name :: string
  label :: string
  entrypoint :: string

text \<open>
  What the module imports from the utilities module and from Node, none of it in the
  sources at hand, is a parameter: the flags and the version of the extension, the
  workspace folders found, the three marker file names, \<open>JSON.parse\<close> at the declared type
  \<open>StagehandTemplate\<close> (\<open>None\<close> when it throws), and \<open>path.join\<close> and
  \<open>path.basename\<close>, which differ by platform. Marker files are taken to be readable
  regular files, so that \<open>readFileSync\<close> and \<open>unlinkSync\<close> do not throw.
\<close>

record env =
  hasFlutterExtension :: bool
  isDevExtension :: bool
  extensionVersion :: string
  getDartWorkspaceFolders :: "WorkspaceFolder list"
  DART_STAGEHAND_PROJECT_TRIGGER_FILE :: string
  FLUTTER_STAGEHAND_PROJECT_TRIGGER_FILE :: string
  FLUTTER_CREATE_PROJECT_TRIGGER_FILE :: string
  JSON_parse :: "string \<Rightarrow> StagehandTemplate option"
  path_join :: "string \<Rightarrow> string \<Rightarrow> string"
  path_basename :: "string \<Rightarrow> string"

record WorkspaceContext =
  hasAnyFlutterProjects :: bool

definition existsSync :: "string \<Rightarrow> world \<Rightarrow> bool" where
  "existsSync p w \<longleftrightarrow> files w p \<noteq> None"

definition unlinkSync :: "string \<Rightarrow> world \<Rightarrow> world" where
  "unlinkSync p w = emit (UnlinkSync p) (w\<lparr>files := (files w)(p := None)\<rparr>)"

definition opt_arg :: "string option \<Rightarrow> arg" where
  "opt_arg x = (case x of None \<Rightarrow> Undefined | Some s \<Rightarrow> Str s)"

text \<open>Truthiness of a value of type string or undefined: the empty string is falsy.\<close>

definition truthy :: "string option \<Rightarrow> bool" where
  "truthy x = (case x of None \<Rightarrow> False | Some s \<Rightarrow> s \<noteq> [])"

section \<open>Trigger files\<close>

text \<open>
  An asynchronous function runs synchronously up to its first \<open>await\<close> and then returns a
  promise; what follows the \<open>await\<close> runs later, when the awaited promise settles. Each
  function is therefore modelled in stages: the synchronous stage returns the new world and
  the continuations it has left pending, and each continuation is a function of the
  outcome it waits for and of the world at the time it runs.
\<close>

datatype pending =
    AwaitCreateDartProject WorkspaceFolder StagehandTemplate
  | AwaitGetPackages WorkspaceFolder StagehandTemplate
  | AwaitCreateFlutterProject WorkspaceFolder "string option"

definition handleDartWelcome :: "env \<Rightarrow> WorkspaceFolder \<Rightarrow> StagehandTemplate \<Rightarrow> world \<Rightarrow> world" where
  "handleDartWelcome e workspaceFolder template w =
    (let workspacePath = fsPath (uri workspaceFolder);
         projectName = path_basename e workspacePath;
         entryFile = path_join e workspacePath
                       (js_replace (entrypoint template) ''__projectName__'' projectName);
         w1 = (if existsSync entryFile w
               then emit (ExecuteCommand ''vscode.open'' [UriArg (Uri_file entryFile)]) w
               else w)
     in emit (ShowInformationMessage (label template @ '' project ready!'') []) w1)"

definition handleFlutterWelcome :: "env \<Rightarrow> WorkspaceFolder \<Rightarrow> string option \<Rightarrow> world \<Rightarrow> world" where
  "handleFlutterWelcome e workspaceFolder sampleID w =
    (let entryFile = path_join e (fsPath (uri workspaceFolder)) ''lib/main.dart'';
         w1 = (if existsSync entryFile w
               then emit (ExecuteCommand ''vscode.open'' [UriArg (Uri_file entryFile)]) w
               else w)
     in case sampleID of
          Some s \<Rightarrow>
            if s \<noteq> []
            then emit (ShowInformationMessage
                         (s @ '' sample ready! Connect a device and press F5 to run.'') []) w1
            else emit (ShowInformationMessage
                         ''Your Flutter project is ready! Connect a device and press F5 to start running.'' []) w1
        | None \<Rightarrow>
            emit (ShowInformationMessage
                    ''Your Flutter project is ready! Connect a device and press F5 to start running.'' []) w1)"

text \<open>
  \<open>createDartProject\<close> and \<open>createFlutterProject\<close> up to their \<open>await\<close>: the host command
  is issued. Their result is \<open>code === 0\<close>.
\<close>

definition createDartProject :: "string \<Rightarrow> string \<Rightarrow> world \<Rightarrow> world" where
  "createDartProject projectPath templateName w =
     emit (ExecuteCommand ''_dart.create'' [Str projectPath, Str templateName]) w"

definition createFlutterProject :: "string \<Rightarrow> string option \<Rightarrow> world \<Rightarrow> world" where
  "createFlutterProject projectPath sampleID w =
    (let projectName = (if truthy sampleID then Some ''sample'' else None)
     in emit (ExecuteCommand ''_flutter.create''
                [Str projectPath, opt_arg projectName, opt_arg sampleID]) w)"

definition handleStagehandTrigger :: "env \<Rightarrow> WorkspaceFolder \<Rightarrow> string \<Rightarrow> world \<Rightarrow> world \<times> pending list" where
  "handleStagehandTrigger e folder triggerFilename w =
    (let triggerFile = path_join e (fsPath (uri folder)) triggerFilename
     in case files w triggerFile of
          None \<Rightarrow> (w, [])
        | Some content \<Rightarrow>
            (let templateJson = js_trim content
             in case JSON_parse e templateJson of
                  None \<Rightarrow>
                    (emit (ShowErrorMessage ''Failed to run Stagehand to create project'') w, [])
                | Some template \<Rightarrow>
                    (createDartProject (fsPath (uri folder)) (name template)
                       (unlinkSync triggerFile w),
                     [AwaitCreateDartProject folder template])))"

definition handleFlutterCreateTrigger :: "env \<Rightarrow> WorkspaceFolder \<Rightarrow> world \<Rightarrow> world \<times> pending list" where
  "handleFlutterCreateTrigger e folder w =
    (let flutterTriggerFile = path_join e (fsPath (uri folder)) (FLUTTER_CREATE_PROJECT_TRIGGER_FILE e)
     in case files w flutterTriggerFile of
          None \<Rightarrow> (w, [])
        | Some content \<Rightarrow>
            (let trimmed = js_trim content;
                 sampleID = (if trimmed \<noteq> [] then Some trimmed else None)
             in (createFlutterProject (fsPath (uri folder)) sampleID
                   (unlinkSync flutterTriggerFile w),
                 [AwaitCreateFlutterProject folder sampleID])))"

text \<open>
  A pending continuation runs when the promise it waits for settles. A rejected promise
  rejects the surrounding asynchronous function (or is dropped by \<open>then\<close>): nothing more
  happens. The value a resolved package resolution carries is not used.
\<close>

fun resume :: "env \<Rightarrow> pending \<Rightarrow> int outcome \<Rightarrow> world \<Rightarrow> world \<times> pending list" where
  "resume e (AwaitCreateDartProject folder template) (Resolved code) w =
     (if code = 0
      then (emit (ExecuteCommand ''dart.getPackages'' [UriArg (uri folder)]) w,
            [AwaitGetPackages folder template])
      else (w, []))"
| "resume e (AwaitGetPackages folder template) (Resolved v) w =
     (handleDartWelcome e folder template w, [])"
| "resume e (AwaitCreateFlutterProject folder sampleID) (Resolved code) w =
     (if code = 0 then (handleFlutterWelcome e folder sampleID w, []) else (w, []))"
| "resume e p (Rejected msg) w = (w, [])"

text \<open>The callback of \<open>forEach\<close>, and the loop over the folders in their order.\<close>

definition handleFolder :: "env \<Rightarrow> WorkspaceFolder \<Rightarrow> world \<Rightarrow> world \<times> pending list" where
  "handleFolder e folder w =
    (case handleStagehandTrigger e folder (DART_STAGEHAND_PROJECT_TRIGGER_FILE e) w of
       (w1, p1) \<Rightarrow>
         (case handleStagehandTrigger e folder (FLUTTER_STAGEHAND_PROJECT_TRIGGER_FILE e) w1 of
            (w2, p2) \<Rightarrow>
              (case handleFlutterCreateTrigger e folder w2 of
                 (w3, p3) \<Rightarrow> (w3, p1 @ p2 @ p3))))"

fun forEach :: "env \<Rightarrow> WorkspaceFolder list \<Rightarrow> world \<Rightarrow> world \<times> pending list" where
  "forEach e [] w = (w, [])"
| "forEach e (folder # folders) w =
     (case handleFolder e folder w of
        (w1, p1) \<Rightarrow> (case forEach e folders w1 of (w2, p2) \<Rightarrow> (w2, p1 @ p2)))"

definition handleNewProjects :: "env \<Rightarrow> world \<Rightarrow> world \<times> pending list" where
  "handleNewProjects e w = forEach e (getDartWorkspaceFolders e) w"

section \<open>One-time prompts\<close>

definition promptPrefix :: string where
  "promptPrefix = ''hasPrompted.''"

definition installFlutterExtensionPromptKey :: string where
  "installFlutterExtensionPromptKey = ''install_flutter_extension''"

datatype prompt =
    PromptToInstallFlutterExtension
  | PromptToShowReleaseNotes string string

text \<open>A prompt function up to its \<open>await\<close>: the message is shown.\<close>

fun prompt_sync :: "prompt \<Rightarrow> world \<Rightarrow> world" where
  "prompt_sync PromptToInstallFlutterExtension w =
     emit (ShowInformationMessage
             ''Working on a Flutter project? Install the Flutter extension for additional functionality.''
             [''Show Me'']) w"
| "prompt_sync (PromptToShowReleaseNotes versionDisplay versionLink) w =
     emit (ShowInformationMessage
             (''Dart Code has been updated to v'' @ versionDisplay)
             [''Show Release Notes'']) w"

text \<open>
  A prompt function after its \<open>await\<close>, given how the message settled: the value its own
  promise settles with, and the new world. A rejected message rejects the prompt.
\<close>

fun prompt_resume :: "prompt \<Rightarrow> string option outcome \<Rightarrow> world \<Rightarrow> bool outcome \<times> world" where
  "prompt_resume PromptToInstallFlutterExtension (Resolved res) w =
     (Resolved True,
      if truthy res
      then emit (OpenInBrowser
                   ''https://marketplace.visualstudio.com/items?itemName=Dart-Code.flutter'') w
      else w)"
| "prompt_resume (PromptToShowReleaseNotes versionDisplay versionLink) (Resolved res) w =
     (Resolved True,
      if truthy res
      then emit (OpenInBrowser (''https://dartcode.org/releases/v'' @ versionLink @ ''/'')) w
      else w)"
| "prompt_resume p (Rejected msg) w = (Rejected msg, w)"

definition error :: "string \<Rightarrow> world \<Rightarrow> world" where
  "error message w = emit (ShowErrorMessage message) w"

definition hasPrompted :: "string \<Rightarrow> world \<Rightarrow> bool" where
  "hasPrompted key w \<longleftrightarrow> (let stateKey = promptPrefix @ key in globalState w stateKey = Some True)"

definition context_update :: "string \<Rightarrow> bool \<Rightarrow> world \<Rightarrow> world" where
  "context_update stateKey v w = w\<lparr>globalState := (globalState w)(stateKey \<mapsto> v)\<rparr>"

text \<open>
  \<open>showPrompt\<close> calls the prompt, which shows its message, and registers the two handlers
  of \<open>then\<close>; \<open>showPrompt_then\<close> is what they do once the prompt's promise has settled.
\<close>

definition showPrompt :: "string \<Rightarrow> prompt \<Rightarrow> world \<Rightarrow> world \<times> (string \<times> prompt) option" where
  "showPrompt key p w = (prompt_sync p w, Some (key, p))"

definition showPrompt_then :: "string \<Rightarrow> bool outcome \<Rightarrow> world \<Rightarrow> world" where
  "showPrompt_then key settled w =
    (let stateKey = promptPrefix @ key
     in case settled of
          Resolved res \<Rightarrow> context_update stateKey res w
        | Rejected msg \<Rightarrow> error msg w)"

text \<open>A shown prompt, from the settling of its message to the end of the handlers.\<close>

definition settlePrompt :: "string \<times> prompt \<Rightarrow> string option outcome \<Rightarrow> world \<Rightarrow> world" where
  "settlePrompt kp answer w =
    (case prompt_resume (snd kp) answer w of
       (settled, w1) \<Rightarrow> showPrompt_then (fst kp) settled w1)"

definition versionLink_of :: "string \<Rightarrow> string" where
  "versionLink_of version =
     js_replace (js_join ''.'' (take 2 (js_split CHR ''.'' version))) ''.'' ''-''"

text \<open>
  The synchronous run of \<open>showUserPrompts\<close>: the new world, the continuations the trigger
  files have left pending, and the prompt now on screen, if any.
\<close>

definition showUserPrompts ::
  "env \<Rightarrow> WorkspaceContext \<Rightarrow> world \<Rightarrow> world \<times> pending list \<times> (string \<times> prompt) option" where
  "showUserPrompts e workspaceContext w =
    (case handleNewProjects e w of
       (w1, tasks) \<Rightarrow>
         (let versionLink = versionLink_of (extensionVersion e);
              releaseNotesKeyForThisVersion = ''release_notes_'' @ extensionVersion e
          in if hasAnyFlutterProjects workspaceContext \<and> \<not> hasFlutterExtension e
                \<and> \<not> hasPrompted installFlutterExtensionPromptKey w1
             then (case showPrompt installFlutterExtensionPromptKey
                          PromptToInstallFlutterExtension w1 of
                     (w2, shown) \<Rightarrow> (w2, tasks, shown))
             else if \<not> isDevExtension e \<and> \<not> hasPrompted releaseNotesKeyForThisVersion w1
             then (case showPrompt releaseNotesKeyForThisVersion
                          (PromptToShowReleaseNotes (extensionVersion e) versionLink) w1 of
                     (w2, shown) \<Rightarrow> (w2, tasks, shown))
             else (w1, tasks, None)))"

section \<open>Sequences of operations\<close>

text \<open>
  The entry points and the continuations, as atomic steps on the world: the host runs one
  of them at a time, in any order. Results and newly pending continuations are dropped
  here; only the world is kept.
\<close>

datatype operation =
    DevToolsSync constants int int
  | DevToolsResume constants "string option"
  | ShowUserPrompts env WorkspaceContext
  | Resume env pending "int outcome"
  | SettlePrompt "string \<times> prompt" "string option outcome"

fun perform :: "operation \<Rightarrow> world \<Rightarrow> world" where
  "perform (DevToolsSync c now1 now2) w =
     snd (showDevToolsNotificationIfAppropriate_sync c now1 now2 w)"
| "perform (DevToolsResume c choice) w =
     snd (showDevToolsNotificationIfAppropriate_resume c choice w)"
| "perform (ShowUserPrompts e workspaceContext) w = fst (showUserPrompts e workspaceContext w)"
| "perform (Resume e p settled) w = fst (resume e p settled w)"
| "perform (SettlePrompt kp answer) w = settlePrompt kp answer w"

fun perform_all :: "operation list \<Rightarrow> world \<Rightarrow> world" where
  "perform_all [] w = w"
| "perform_all (x # xs) w = perform_all xs (perform x w)"

text \<open>The persisted state of two worlds is the same.\<close>

definition same_context :: "world \<Rightarrow> world \<Rightarrow> bool" where
  "same_context w w' \<longleftrightarrow>
     globalState w' = globalState w
     \<and> devToolsNotificationLastShown w' = devToolsNotificationLastShown w
     \<and> devToolsNotificationsShown w' = devToolsNotificationsShown w
     \<and> devToolsNotificationDoNotShow w' = devToolsNotificationDoNotShow w"

text \<open>
  The events of the synchronous stage of trigger handling: a marker file deleted, the parse
  error shown, a create command issued.
\<close>

fun is_trigger_event :: "event \<Rightarrow> bool" where
  "is_trigger_event (UnlinkSync p) = True"
| "is_trigger_event (ShowErrorMessage m) = True"
| "is_trigger_event (ExecuteCommand c args) = (c = ''_dart.create'' \<or> c = ''_flutter.create'')"
| "is_trigger_event ev = False"

fun is_create_pending :: "pending \<Rightarrow> bool" where
  "is_create_pending (AwaitCreateDartProject folder template) = True"
| "is_create_pending (AwaitCreateFlutterProject folder sampleID) = True"
| "is_create_pending (AwaitGetPackages folder template) = False"

section \<open>Concrete inputs\<close>

text \<open>
  Sample values for the parameters: labels for the devtools buttons, marker file names, a
  parser that knows the descriptor of the console template, and path functions that agree
  with the POSIX ones on the paths used below.
\<close>

definition sample_constants :: constants where
  "sample_constants =
     \<lparr>wantToTryDevToolsPrompt = ''Try DevTools?'',
      openDevToolsAction = ''Open DevTools'',
      noThanksAction = ''No Thanks'',
      doNotAskAgainAction = ''Never Ask''\<rparr>"

definition sample_world :: world where
  "sample_world =
     \<lparr>globalState = Map.empty,
      devToolsNotificationLastShown = None,
      devToolsNotificationsShown = 0,
      devToolsNotificationDoNotShow = False,
      files = Map.empty,
      trace = []\<rparr>"

definition console_json :: string where
  \<open>console_json = ''{"name":"x","label":"Console App","entrypoint":"bin/__projectName__.dart"}''\<close>

definition console_template :: StagehandTemplate where
  "console_template =
     \<lparr>name = ''x'', label = ''Console App'', entrypoint = ''bin/__projectName__.dart''\<rparr>"

definition sample_parse :: "string \<Rightarrow> StagehandTemplate option" where
  "sample_parse s = (if s = console_json then Some console_template else None)"

definition sample_join :: "string \<Rightarrow> string \<Rightarrow> string" where
  "sample_join a b = a @ ''/'' @ b"

definition sample_basename :: "string \<Rightarrow> string" where
  "sample_basename p = rev (takeWhile (\<lambda>ch. ch \<noteq> CHR ''/'') (rev p))"

definition sample_env :: "WorkspaceFolder list \<Rightarrow> env" where
  "sample_env folders =
     \<lparr>hasFlutterExtension = False,
      isDevExtension = False,
      extensionVersion = ''2.19.0'',
      getDartWorkspaceFolders = folders,
      DART_STAGEHAND_PROJECT_TRIGGER_FILE = ''dart.sh.create'',
      FLUTTER_STAGEHAND_PROJECT_TRIGGER_FILE = ''flutter.sh.create'',
      FLUTTER_CREATE_PROJECT_TRIGGER_FILE = ''flutter.create'',
      JSON_parse = sample_parse,
      path_join = sample_join,
      path_basename = sample_basename\<rparr>"

definition folder_at :: "string \<Rightarrow> WorkspaceFolder" where
  "folder_at p = WorkspaceFolder (Uri_file p)"

section \<open>What leaves the persisted state alone\<close>

lemma same_context_refl: "same_context w w"
  by (simp add: same_context_def)

lemma same_context_trans: "same_context a b \<Longrightarrow> same_context b c \<Longrightarrow> same_context a c"
  by (simp add: same_context_def)

lemma same_context_emit: "same_context w (emit ev w)"
  by (simp add: same_context_def emit_def)

lemma same_context_unlinkSync: "same_context w (unlinkSync p w)"
  by (simp add: same_context_def unlinkSync_def emit_def)

lemma same_context_handleDartWelcome: "same_context w (handleDartWelcome e folder template w)"
  by (simp add: same_context_def handleDartWelcome_def emit_def Let_def)

lemma same_context_handleFlutterWelcome: "same_context w (handleFlutterWelcome e folder sampleID w)"
  by (simp add: same_context_def handleFlutterWelcome_def emit_def Let_def split: option.splits)

lemma same_context_handleStagehandTrigger:
  "same_context w (fst (handleStagehandTrigger e folder triggerFilename w))"
  by (simp add: same_context_def handleStagehandTrigger_def createDartProject_def
      unlinkSync_def emit_def Let_def split: option.splits)

lemma same_context_handleFlutterCreateTrigger:
  "same_context w (fst (handleFlutterCreateTrigger e folder w))"
  by (simp add: same_context_def handleFlutterCreateTrigger_def createFlutterProject_def
      unlinkSync_def emit_def Let_def split: option.splits)

lemma same_context_handleFolder: "same_context w (fst (handleFolder e folder w))"
proof -
  obtain w1 p1 where s1: "handleStagehandTrigger e folder (DART_STAGEHAND_PROJECT_TRIGGER_FILE e) w = (w1, p1)"
    by (cases "handleStagehandTrigger e folder (DART_STAGEHAND_PROJECT_TRIGGER_FILE e) w")
  obtain w2 p2 where s2: "handleStagehandTrigger e folder (FLUTTER_STAGEHAND_PROJECT_TRIGGER_FILE e) w1 = (w2, p2)"
    by (cases "handleStagehandTrigger e folder (FLUTTER_STAGEHAND_PROJECT_TRIGGER_FILE e) w1")
  obtain w3 p3 where s3: "handleFlutterCreateTrigger e folder w2 = (w3, p3)"
    by (cases "handleFlutterCreateTrigger e folder w2")
  have "same_context w w1"
    using same_context_handleStagehandTrigger [of w e folder "DART_STAGEHAND_PROJECT_TRIGGER_FILE e"] s1 by simp
  moreover have "same_context w1 w2"
    using same_context_handleStagehandTrigger [of w1 e folder "FLUTTER_STAGEHAND_PROJECT_TRIGGER_FILE e"] s2 by simp
  moreover have "same_context w2 w3"
    using same_context_handleFlutterCreateTrigger [of w2 e folder] s3 by simp
  ultimately have "same_context w w3"
    by (blast intro: same_context_trans)
  then show ?thesis
    by (simp add: handleFolder_def s1 s2 s3)
qed

lemma same_context_forEach: "same_context w (fst (forEach e folders w))"
proof (induction folders arbitrary: w)
  case Nil
  show ?case by (simp add: same_context_refl)
next
  case (Cons folder folders)
  obtain w1 p1 where h: "handleFolder e folder w = (w1, p1)"
    by (cases "handleFolder e folder w")
  have a: "same_context w w1"
    using same_context_handleFolder [of w e folder] h by simp
  have b: "same_context w1 (fst (forEach e folders w1))"
    by (rule Cons.IH)
  show ?case
    using same_context_trans [OF a b] by (auto simp add: h split: prod.splits)
qed

lemma same_context_handleNewProjects: "same_context w (fst (handleNewProjects e w))"
  by (simp add: handleNewProjects_def same_context_forEach)

lemma same_context_resume: "same_context w (fst (resume e p settled w))"
  by (cases "(e, p, settled, w)" rule: resume.cases)
     (simp_all add: same_context_refl same_context_emit same_context_handleDartWelcome
        same_context_handleFlutterWelcome)

lemma same_context_prompt_sync: "same_context w (prompt_sync p w)"
  by (cases p) (simp_all add: same_context_emit)

lemma same_context_prompt_resume: "same_context w (snd (prompt_resume p answer w))"
  by (cases "(p, answer, w)" rule: prompt_resume.cases)
     (simp_all add: same_context_refl same_context_emit)

lemma fst_prompt_resume_Resolved: "fst (prompt_resume p (Resolved res) w) = Resolved True"
  by (cases p) simp_all

lemma fst_prompt_resume_Rejected: "fst (prompt_resume p (Rejected msg) w) = Rejected msg"
  by simp

lemma hasPrompted_same_context: "same_context w w' \<Longrightarrow> hasPrompted key w' = hasPrompted key w"
  by (simp add: same_context_def hasPrompted_def)

section \<open>The devtools notification: gate and outcome\<close>




section \<open>The devtools notification: invariants\<close>

lemma sync_doNotShow:
  "devToolsNotificationDoNotShow w \<Longrightarrow>
     showDevToolsNotificationIfAppropriate_sync c now1 now2 w = (Some False, w)"
  by (simp add: showDevToolsNotificationIfAppropriate_sync_def)

lemma sync_monotone:
  "devToolsNotificationsShown w \<le> devToolsNotificationsShown (snd (showDevToolsNotificationIfAppropriate_sync c now1 now2 w))
   \<and> (devToolsNotificationDoNotShow w \<longrightarrow> devToolsNotificationDoNotShow (snd (showDevToolsNotificationIfAppropriate_sync c now1 now2 w)))"
  by (simp add: showDevToolsNotificationIfAppropriate_sync_def emit_def Let_def)

lemma resume_monotone:
  "devToolsNotificationsShown w \<le> devToolsNotificationsShown (snd (showDevToolsNotificationIfAppropriate_resume c choice w))
   \<and> (devToolsNotificationDoNotShow w \<longrightarrow> devToolsNotificationDoNotShow (snd (showDevToolsNotificationIfAppropriate_resume c choice w)))"
  by (simp add: showDevToolsNotificationIfAppropriate_resume_def emit_def)

lemma same_context_showPrompt_then_throttle:
  "devToolsNotificationsShown (showPrompt_then key settled w) = devToolsNotificationsShown w
   \<and> devToolsNotificationDoNotShow (showPrompt_then key settled w) = devToolsNotificationDoNotShow w"
  by (simp add: showPrompt_then_def context_update_def error_def emit_def Let_def split: outcome.splits)

lemma settlePrompt_throttle:
  "devToolsNotificationsShown (settlePrompt kp answer w) = devToolsNotificationsShown w
   \<and> devToolsNotificationDoNotShow (settlePrompt kp answer w) = devToolsNotificationDoNotShow w"
proof -
  obtain settled w1 where r: "prompt_resume (snd kp) answer w = (settled, w1)"
    by (cases "prompt_resume (snd kp) answer w")
  have "same_context w w1"
    using same_context_prompt_resume [of w "snd kp" answer] r by simp
  then show ?thesis
    using same_context_showPrompt_then_throttle [of "fst kp" settled w1]
    by (simp add: settlePrompt_def r same_context_def)
qed

lemma same_context_showUserPrompts: "same_context w (fst (showUserPrompts e workspaceContext w))"
proof -
  obtain w1 tasks where h: "handleNewProjects e w = (w1, tasks)"
    by (cases "handleNewProjects e w")
  have a: "same_context w w1"
    using same_context_handleNewProjects [of w e] h by simp
  have b: "same_context w1 (prompt_sync p w1)" for p
    by (rule same_context_prompt_sync)
  have c: "same_context w (prompt_sync p w1)" for p
    using same_context_trans [OF a b] .
  show ?thesis
    using a c by (simp add: showUserPrompts_def h showPrompt_def Let_def del: prompt_sync.simps)
qed

lemma perform_monotone:
  "devToolsNotificationsShown w \<le> devToolsNotificationsShown (perform x w)
   \<and> (devToolsNotificationDoNotShow w \<longrightarrow> devToolsNotificationDoNotShow (perform x w))"
proof (cases x)
  case (DevToolsSync c now1 now2)
  then show ?thesis using sync_monotone [of w c now1 now2] by simp
next
  case (DevToolsResume c choice)
  then show ?thesis using resume_monotone [of w c choice] by simp
next
  case (ShowUserPrompts e workspaceContext)
  then show ?thesis
    using same_context_showUserPrompts [of w e workspaceContext] by (simp add: same_context_def)
next
  case (Resume e p settled)
  then show ?thesis
    using same_context_resume [of w e p settled] by (simp add: same_context_def)
next
  case (SettlePrompt kp answer)
  then show ?thesis using settlePrompt_throttle [of kp answer w] by simp
qed

lemma perform_all_monotone:
  "devToolsNotificationsShown w \<le> devToolsNotificationsShown (perform_all xs w)
   \<and> (devToolsNotificationDoNotShow w \<longrightarrow> devToolsNotificationDoNotShow (perform_all xs w))"
proof (induction xs arbitrary: w)
  case Nil
  show ?case by simp
next
  case (Cons x xs)
  show ?case
    using perform_monotone [of w x] Cons.IH [of "perform x w"] by auto
qed

lemma perform_all_append: "perform_all (xs @ ys) w = perform_all ys (perform_all xs w)"
  by (induction xs arbitrary: w) simp_all

lemma call_doNotShow:
  "devToolsNotificationDoNotShow w \<Longrightarrow>
     showDevToolsNotificationIfAppropriate c now1 now2 choice w = (False, w)"
  by (simp add: showDevToolsNotificationIfAppropriate_def sync_doNotShow)

lemma call_as_operations:
  "snd (showDevToolsNotificationIfAppropriate c now1 now2 choice w) =
     (case fst (showDevToolsNotificationIfAppropriate_sync c now1 now2 w) of
        Some r \<Rightarrow> perform (DevToolsSync c now1 now2) w
      | None \<Rightarrow> perform_all [DevToolsSync c now1 now2, DevToolsResume c choice] w)"
  by (simp add: showDevToolsNotificationIfAppropriate_def split: prod.splits option.splits)

lemma call_monotone:
  "devToolsNotificationsShown w \<le> devToolsNotificationsShown (snd (showDevToolsNotificationIfAppropriate c now1 now2 choice w))"
  by (simp add: showDevToolsNotificationIfAppropriate_def showDevToolsNotificationIfAppropriate_sync_def
        showDevToolsNotificationIfAppropriate_resume_def emit_def Let_def)

lemma devToolsCalls_monotone:
  "devToolsNotificationsShown w \<le> devToolsNotificationsShown (snd (devToolsCalls c calls w))"
proof (induction calls arbitrary: w)
  case Nil
  show ?case by simp
next
  case (Cons call calls)
  obtain now1 now2 choice where call: "call = (now1, now2, choice)"
    by (cases call)
  obtain r w1 where one: "showDevToolsNotificationIfAppropriate c now1 now2 choice w = (r, w1)"
    by (cases "showDevToolsNotificationIfAppropriate c now1 now2 choice w")
  have "devToolsNotificationsShown w \<le> devToolsNotificationsShown w1"
    using call_monotone [of w c now1 now2 choice] one by simp
  moreover have "devToolsNotificationsShown w1 \<le> devToolsNotificationsShown (snd (devToolsCalls c calls w1))"
    by (rule Cons.IH)
  ultimately show ?case
    by (auto simp add: call one split: prod.splits)
qed

lemma devToolsCalls_doNotShow:
  "devToolsNotificationDoNotShow w \<Longrightarrow>
     devToolsCalls c calls w = (replicate (length calls) False, w)"
proof (induction calls)
  case Nil
  show ?case by simp
next
  case (Cons call calls)
  obtain now1 now2 choice where call: "call = (now1, now2, choice)"
    by (cases call)
  show ?case
    using Cons by (simp add: call call_doNotShow)
qed

lemma devToolsCalls_append:
  "devToolsCalls c (xs @ ys) w =
     (case devToolsCalls c xs w of
        (rs, w1) \<Rightarrow> (case devToolsCalls c ys w1 of (rs', w2) \<Rightarrow> (rs @ rs', w2)))"
  by (induction xs arbitrary: w) (auto split: prod.splits)

text \<open>
  C2. Along every sequence of operations of the module, and along every sequence of calls
  of the function, the shown-count never decreases. Once the opt-out flag is true it stays
  true whatever operations follow, and every later call returns false and leaves the world
  as it is (nothing is displayed), whatever the count and the timestamp are.
\<close>

theorem devtools_count_monotone_optout_permanent:
  "devToolsNotificationsShown (perform_all xs w) \<le> devToolsNotificationsShown (perform_all (xs @ ys) w)
   \<and> devToolsNotificationsShown (snd (devToolsCalls c calls w))
       \<le> devToolsNotificationsShown (snd (devToolsCalls c (calls @ calls') w))
   \<and> (devToolsNotificationDoNotShow w \<longrightarrow>
        devToolsNotificationDoNotShow (perform_all xs w)
        \<and> devToolsCalls c calls (perform_all xs w) = (replicate (length calls) False, perform_all xs w))"
proof -
  have a: "devToolsNotificationsShown (perform_all xs w) \<le> devToolsNotificationsShown (perform_all (xs @ ys) w)"
    using perform_all_monotone [of "perform_all xs w" ys] by (simp add: perform_all_append)
  have b: "devToolsNotificationsShown (snd (devToolsCalls c calls w))
       \<le> devToolsNotificationsShown (snd (devToolsCalls c (calls @ calls') w))"
    using devToolsCalls_monotone [of "snd (devToolsCalls c calls w)" c calls']
    by (auto simp add: devToolsCalls_append split: prod.splits)
  have c: "devToolsNotificationDoNotShow w \<longrightarrow>
        devToolsNotificationDoNotShow (perform_all xs w)
        \<and> devToolsCalls c calls (perform_all xs w) = (replicate (length calls) False, perform_all xs w)"
    using perform_all_monotone [of w xs] devToolsCalls_doNotShow [of "perform_all xs w" c calls]
    by simp
  show ?thesis
    using a b c by simp
qed

text \<open>
  After "never ask", with a count of 3 and a timestamp a year old, two further calls show
  nothing, also when a prompt was settled in between.
\<close>

theorem devtools_count_monotone_optout_permanent_witness:
  "devToolsNotificationDoNotShow
     (sample_world\<lparr>devToolsNotificationLastShown := Some 1668467600000,
                    devToolsNotificationsShown := 3,
                    devToolsNotificationDoNotShow := True\<rparr>)
   \<and> devToolsCalls sample_constants
        [(1700003600000, 1700003600001, Some ''Open DevTools''),
         (1700103600000, 1700103600001, None)]
        (perform_all [SettlePrompt (installFlutterExtensionPromptKey, PromptToInstallFlutterExtension) (Resolved None)]
          (sample_world\<lparr>devToolsNotificationLastShown := Some 1668467600000,
                    devToolsNotificationsShown := 3,
                    devToolsNotificationDoNotShow := True\<rparr>))
      = ([False, False],
         sample_world\<lparr>globalState := [''hasPrompted.install_flutter_extension'' \<mapsto> True],
                    devToolsNotificationLastShown := Some 1668467600000,
                    devToolsNotificationsShown := 3,
                    devToolsNotificationDoNotShow := True\<rparr>)"
proof -
  have flag: "devToolsNotificationDoNotShow
     (sample_world\<lparr>devToolsNotificationLastShown := Some 1668467600000,
                    devToolsNotificationsShown := 3,
                    devToolsNotificationDoNotShow := True\<rparr>)"
    by simp
  have settled: "perform_all [SettlePrompt (installFlutterExtensionPromptKey, PromptToInstallFlutterExtension) (Resolved None)]
          (sample_world\<lparr>devToolsNotificationLastShown := Some 1668467600000,
                    devToolsNotificationsShown := 3,
                    devToolsNotificationDoNotShow := True\<rparr>)
      = sample_world\<lparr>globalState := [''hasPrompted.install_flutter_extension'' \<mapsto> True],
                    devToolsNotificationLastShown := Some 1668467600000,
                    devToolsNotificationsShown := 3,
                    devToolsNotificationDoNotShow := True\<rparr>"
    by (simp add: settlePrompt_def showPrompt_then_def context_update_def truthy_def
          promptPrefix_def installFlutterExtensionPromptKey_def sample_world_def)
  show ?thesis
    using flag
      devtools_count_monotone_optout_permanent
        [of "[SettlePrompt (installFlutterExtensionPromptKey, PromptToInstallFlutterExtension) (Resolved None)]"
            "sample_world\<lparr>devToolsNotificationLastShown := Some 1668467600000,
                    devToolsNotificationsShown := 3,
                    devToolsNotificationDoNotShow := True\<rparr>"
            "[]" sample_constants
            "[(1700003600000, 1700003600001, Some ''Open DevTools''), (1700103600000, 1700103600001, None)]"
            "[]"]
    by (simp only: settled) simp
qed

text \<open>
  C8. With distinct labels on the accept and the permanently-decline buttons: once the
  notification is displayed, the call returns what the continuation returns, which is true
  exactly when the user accepts, and then the devtools-open command is run; permanently
  declining sets the opt-out flag and returns false; declining or dismissing returns false
  and leaves the world as it is.
\<close>

theorem devtools_choice:
  assumes labels: "doNotAskAgainAction c \<noteq> openDevToolsAction c"
  shows "showDevToolsNotificationIfAppropriate_resume c choice w =
           (if choice = Some (openDevToolsAction c)
              then (True, w\<lparr>trace := trace w @ [ExecuteCommand ''dart.openDevTools'' []]\<rparr>)
            else if choice = Some (doNotAskAgainAction c)
              then (False, w\<lparr>devToolsNotificationDoNotShow := True\<rparr>)
            else (False, w))
         \<and> (fst (showDevToolsNotificationIfAppropriate_resume c choice w)
              \<longleftrightarrow> choice = Some (openDevToolsAction c))
         \<and> (showDevToolsNotificationIfAppropriate_sync c now1 now2 w0 = (None, w) \<longrightarrow>
              showDevToolsNotificationIfAppropriate c now1 now2 choice w0 =
                showDevToolsNotificationIfAppropriate_resume c choice w)"
  using labels
  by (auto simp: showDevToolsNotificationIfAppropriate_resume_def
        showDevToolsNotificationIfAppropriate_def emit_def)

text \<open>A first display, accepted: the call returns true and the command is run.\<close>

theorem devtools_choice_witness:
  "doNotAskAgainAction sample_constants \<noteq> openDevToolsAction sample_constants
   \<and> showDevToolsNotificationIfAppropriate sample_constants 1700003600000 1700003600001
        (Some ''Open DevTools'') sample_world
      = (True, sample_world\<lparr>devToolsNotificationsShown := 1,
                  devToolsNotificationLastShown := Some 1700003600001,
                  trace := [ShowInformationMessage ''Try DevTools?''
                              [''Open DevTools'', ''No Thanks'', ''Never Ask''],
                            ExecuteCommand ''dart.openDevTools'' []]\<rparr>)"
proof -
  have labels: "doNotAskAgainAction sample_constants \<noteq> openDevToolsAction sample_constants"
    by (simp add: sample_constants_def)
  have shown: "showDevToolsNotificationIfAppropriate_sync sample_constants 1700003600000 1700003600001
        sample_world
      = (None, sample_world\<lparr>devToolsNotificationsShown := 1,
                  devToolsNotificationLastShown := Some 1700003600001,
                  trace := [ShowInformationMessage ''Try DevTools?''
                              [''Open DevTools'', ''No Thanks'', ''Never Ask'']]\<rparr>)"
    by (simp add: showDevToolsNotificationIfAppropriate_sync_def emit_def sample_world_def
          sample_constants_def)
  show ?thesis
    using labels shown
      devtools_choice [OF labels, of "Some ''Open DevTools''"
        "sample_world\<lparr>devToolsNotificationsShown := 1,
                  devToolsNotificationLastShown := Some 1700003600001,
                  trace := [ShowInformationMessage ''Try DevTools?''
                              [''Open DevTools'', ''No Thanks'', ''Never Ask'']]\<rparr>"
        1700003600000 1700003600001 sample_world]
    by (simp add: sample_constants_def sample_world_def)
qed

section \<open>One-time prompts: selection and persistence\<close>

lemma showUserPrompts_unfold:
  "showUserPrompts e workspaceContext w =
    (if hasAnyFlutterProjects workspaceContext \<and> \<not> hasFlutterExtension e
          \<and> \<not> hasPrompted installFlutterExtensionPromptKey w
     then (prompt_sync PromptToInstallFlutterExtension (fst (handleNewProjects e w)),
           snd (handleNewProjects e w),
           Some (installFlutterExtensionPromptKey, PromptToInstallFlutterExtension))
     else if \<not> isDevExtension e \<and> \<not> hasPrompted (''release_notes_'' @ extensionVersion e) w
     then (prompt_sync (PromptToShowReleaseNotes (extensionVersion e)
                          (versionLink_of (extensionVersion e))) (fst (handleNewProjects e w)),
           snd (handleNewProjects e w),
           Some (''release_notes_'' @ extensionVersion e,
                 PromptToShowReleaseNotes (extensionVersion e) (versionLink_of (extensionVersion e))))
     else (fst (handleNewProjects e w), snd (handleNewProjects e w), None))"
proof -
  obtain w1 tasks where h: "handleNewProjects e w = (w1, tasks)"
    by (cases "handleNewProjects e w")
  have "same_context w w1"
    using same_context_handleNewProjects [of w e] h by simp
  then have "hasPrompted key w1 = hasPrompted key w" for key
    by (rule hasPrompted_same_context)
  then show ?thesis
    by (simp add: showUserPrompts_def h showPrompt_def Let_def del: prompt_sync.simps)
qed

lemma showUserPrompts_not_offered:
  "hasPrompted key w \<Longrightarrow> snd (snd (showUserPrompts e workspaceContext w)) \<noteq> Some (key, p)"
  by (auto simp: showUserPrompts_unfold simp del: prompt_sync.simps)

lemma hasPrompted_showPrompt_then:
  "hasPrompted key w \<Longrightarrow> settled \<noteq> Resolved False \<Longrightarrow> hasPrompted key (showPrompt_then key' settled w)"
  by (cases settled)
     (auto simp: showPrompt_then_def hasPrompted_def context_update_def error_def emit_def Let_def)

lemma hasPrompted_settlePrompt:
  "hasPrompted key w \<Longrightarrow> hasPrompted key (settlePrompt kp answer w)"
proof -
  assume seen: "hasPrompted key w"
  obtain settled w1 where r: "prompt_resume (snd kp) answer w = (settled, w1)"
    by (cases "prompt_resume (snd kp) answer w")
  have "same_context w w1"
    using same_context_prompt_resume [of w "snd kp" answer] r by simp
  then have seen1: "hasPrompted key w1"
    using seen by (simp add: hasPrompted_same_context)
  have "settled \<noteq> Resolved False"
  proof (cases answer)
    case (Resolved res)
    then show ?thesis
      using fst_prompt_resume_Resolved [of "snd kp" res w] r by simp
  next
    case (Rejected msg)
    then show ?thesis
      using r by auto
  qed
  then show ?thesis
    using seen1 by (simp add: settlePrompt_def r hasPrompted_showPrompt_then)
qed

lemma hasPrompted_perform: "hasPrompted key w \<Longrightarrow> hasPrompted key (perform x w)"
proof (cases x)
  case (DevToolsSync c now1 now2)
  then show "hasPrompted key w \<Longrightarrow> ?thesis"
    by (simp add: showDevToolsNotificationIfAppropriate_sync_def hasPrompted_def emit_def Let_def)
next
  case (DevToolsResume c choice)
  then show "hasPrompted key w \<Longrightarrow> ?thesis"
    by (simp add: showDevToolsNotificationIfAppropriate_resume_def hasPrompted_def emit_def)
next
  case (ShowUserPrompts e workspaceContext)
  then show "hasPrompted key w \<Longrightarrow> ?thesis"
    using same_context_showUserPrompts [of w e workspaceContext]
    by (simp add: hasPrompted_same_context)
next
  case (Resume e p settled)
  then show "hasPrompted key w \<Longrightarrow> ?thesis"
    using same_context_resume [of w e p settled] by (simp add: hasPrompted_same_context)
next
  case (SettlePrompt kp answer)
  then show "hasPrompted key w \<Longrightarrow> ?thesis"
    by (simp add: hasPrompted_settlePrompt)
qed

lemma hasPrompted_perform_all: "hasPrompted key w \<Longrightarrow> hasPrompted key (perform_all xs w)"
  by (induction xs arbitrary: w) (simp_all add: hasPrompted_perform)

text \<open>
  C3. For every persisted state and workspace context, one activation shows at most one
  prompt: the install prompt when the workspace has Flutter projects, the Flutter extension
  is absent and the install key is not marked seen; otherwise the release-notes prompt
  when the build is not a development build and the key of this version is not marked
  seen; otherwise none. When the install prompt is shown the release-notes prompt is
  skipped. The trace grows by that one message, after whatever trigger handling emitted.
\<close>

theorem showUserPrompts_first_candidate:
  "showUserPrompts e workspaceContext w =
    (if hasAnyFlutterProjects workspaceContext \<and> \<not> hasFlutterExtension e
          \<and> \<not> hasPrompted installFlutterExtensionPromptKey w
     then ((fst (handleNewProjects e w))
             \<lparr>trace := trace (fst (handleNewProjects e w)) @
                [ShowInformationMessage
                   ''Working on a Flutter project? Install the Flutter extension for additional functionality.''
                   [''Show Me'']]\<rparr>,
           snd (handleNewProjects e w),
           Some (installFlutterExtensionPromptKey, PromptToInstallFlutterExtension))
     else if \<not> isDevExtension e \<and> \<not> hasPrompted (''release_notes_'' @ extensionVersion e) w
     then ((fst (handleNewProjects e w))
             \<lparr>trace := trace (fst (handleNewProjects e w)) @
                [ShowInformationMessage (''Dart Code has been updated to v'' @ extensionVersion e)
                   [''Show Release Notes'']]\<rparr>,
           snd (handleNewProjects e w),
           Some (''release_notes_'' @ extensionVersion e,
                 PromptToShowReleaseNotes (extensionVersion e) (versionLink_of (extensionVersion e))))
     else (fst (handleNewProjects e w), snd (handleNewProjects e w), None))
   \<and> length (trace (fst (showUserPrompts e workspaceContext w)))
       \<le> length (trace (fst (handleNewProjects e w))) + 1"
  by (simp add: showUserPrompts_unfold emit_def)

text \<open>
  Both prompts are eligible (Flutter projects, no Flutter extension, a release build,
  nothing seen yet): only the install prompt is shown.
\<close>

theorem showUserPrompts_first_candidate_witness:
  "showUserPrompts (sample_env []) \<lparr>hasAnyFlutterProjects = True\<rparr> sample_world =
     (sample_world\<lparr>trace :=
        [ShowInformationMessage
           ''Working on a Flutter project? Install the Flutter extension for additional functionality.''
           [''Show Me'']]\<rparr>,
      [],
      Some (''install_flutter_extension'', PromptToInstallFlutterExtension))
   \<and> \<not> isDevExtension (sample_env [])
   \<and> \<not> hasPrompted (''release_notes_'' @ extensionVersion (sample_env [])) sample_world"
  using showUserPrompts_first_candidate [of "sample_env []" "\<lparr>hasAnyFlutterProjects = True\<rparr>" sample_world]
  by (simp add: sample_env_def sample_world_def hasPrompted_def handleNewProjects_def
        installFlutterExtensionPromptKey_def promptPrefix_def)



text \<open>
  C10. Both prompt functions resolve to true whatever the message resolves with: the
  button's label, or nothing when the message is closed or dismissed. So once a shown
  prompt's message has resolved, its id is marked seen, stays marked through every later
  sequence of operations, and no later activation shows a prompt with that id.
\<close>

theorem prompts_always_mark_seen:
  "fst (prompt_resume p (Resolved res) w) = Resolved True
   \<and> globalState (settlePrompt (key, p) (Resolved res) w) (''hasPrompted.'' @ key) = Some True
   \<and> hasPrompted key (perform_all xs (settlePrompt (key, p) (Resolved res) w))
   \<and> snd (snd (showUserPrompts e workspaceContext
                 (perform_all xs (settlePrompt (key, p) (Resolved res) w))))
        \<noteq> Some (key, p')"
proof -
  obtain w1 where r: "prompt_resume p (Resolved res) w = (Resolved True, w1)"
    using fst_prompt_resume_Resolved [of p res w]
    by (cases "prompt_resume p (Resolved res) w") simp
  have stored: "globalState (settlePrompt (key, p) (Resolved res) w) (''hasPrompted.'' @ key) = Some True"
    by (simp add: settlePrompt_def r showPrompt_then_def context_update_def promptPrefix_def)
  then have seen: "hasPrompted key (settlePrompt (key, p) (Resolved res) w)"
    by (simp add: hasPrompted_def promptPrefix_def)
  have later: "hasPrompted key (perform_all xs (settlePrompt (key, p) (Resolved res) w))"
    using seen by (rule hasPrompted_perform_all)
  show ?thesis
    using r stored later showUserPrompts_not_offered [OF later, of e workspaceContext p']
    by simp
qed

text \<open>
  The install prompt is dismissed: it is marked seen, and the next activation, with the
  install prompt's precondition still true, shows the release notes instead.
\<close>

theorem prompts_always_mark_seen_witness:
  "settlePrompt (installFlutterExtensionPromptKey, PromptToInstallFlutterExtension)
      (Resolved None) sample_world
     = sample_world\<lparr>globalState := [''hasPrompted.install_flutter_extension'' \<mapsto> True]\<rparr>
   \<and> snd (snd (showUserPrompts (sample_env []) \<lparr>hasAnyFlutterProjects = True\<rparr>
        (perform_all []
           (settlePrompt (installFlutterExtensionPromptKey, PromptToInstallFlutterExtension)
              (Resolved None) sample_world))))
     = Some (''release_notes_2.19.0'', PromptToShowReleaseNotes ''2.19.0'' ''2-19'')"
proof -
  have settled: "settlePrompt (installFlutterExtensionPromptKey, PromptToInstallFlutterExtension)
      (Resolved None) sample_world
     = sample_world\<lparr>globalState := [''hasPrompted.install_flutter_extension'' \<mapsto> True]\<rparr>"
    by (simp add: settlePrompt_def showPrompt_then_def context_update_def truthy_def
          promptPrefix_def installFlutterExtensionPromptKey_def sample_world_def)
  have link: "versionLink_of ''2.19.0'' = ''2-19''"
    by (simp add: versionLink_of_def js_replace_def)
  have shown: "snd (snd (showUserPrompts (sample_env []) \<lparr>hasAnyFlutterProjects = True\<rparr>
        (sample_world\<lparr>globalState := [''hasPrompted.install_flutter_extension'' \<mapsto> True]\<rparr>)))
     = Some (''release_notes_2.19.0'', PromptToShowReleaseNotes ''2.19.0'' ''2-19'')"
    by (simp add: showUserPrompts_unfold link sample_env_def hasPrompted_def
          promptPrefix_def installFlutterExtensionPromptKey_def sample_world_def
          del: prompt_sync.simps)
  show ?thesis
    using prompts_always_mark_seen [of PromptToInstallFlutterExtension None sample_world
        installFlutterExtensionPromptKey "[]" "sample_env []" "\<lparr>hasAnyFlutterProjects = True\<rparr>"
        PromptToInstallFlutterExtension]
    unfolding perform_all.simps settled shown
    by simp
qed

section \<open>Trigger files: the scaffolding markers\<close>

lemma js_trim_whitespace:
  "list_all is_js_whitespace s \<Longrightarrow> js_trim s = []"
proof -
  assume "list_all is_js_whitespace s"
  then have dropped: "dropWhile is_js_whitespace s = []"
    by (induction s) simp_all
  show ?thesis
    by (simp only: js_trim_def dropped) simp
qed

lemma split_first_Some:
  "split_first pat s = Some (pre, post) \<Longrightarrow> s = pre @ pat @ post"
proof (induction s arbitrary: pre)
  case Nil
  then show ?case by (simp split: if_splits)
next
  case (Cons x xs)
  show ?case
  proof (cases "take (length pat) (x # xs) = pat")
    case True
    then have "pre = []" and "post = drop (length pat) (x # xs)"
      using Cons.prems by simp_all
    then show ?thesis
      using True append_take_drop_id [of "length pat" "x # xs"] by simp
  next
    case False
    then obtain pre' where "split_first pat xs = Some (pre', post)" and "pre = x # pre'"
      using Cons.prems by (auto split: option.splits)
    then show ?thesis
      using Cons.IH [of pre'] by simp
  qed
qed

lemma getSubstitution_no_dollar:
  "CHR ''$'' \<notin> set r \<Longrightarrow> getSubstitution matched pre post r = r"
  by (induction matched pre post r rule: getSubstitution.induct) auto

lemma js_replace_no_dollar:
  "CHR ''$'' \<notin> set r \<Longrightarrow> js_replace s pat r = replace_literally s pat r"
  by (simp add: js_replace_def replace_literally_def getSubstitution_no_dollar split: option.splits)

text \<open>
  C4. When the marker file of a scaffolding trigger exists and its trimmed content does not
  parse, the handler shows the error message and does nothing else: the file system is as
  before, so the marker is still there, no command is run, and nothing is left pending.
\<close>

theorem stagehand_parse_failure:
  assumes marker: "files w (path_join e (fsPath (uri folder)) triggerFilename) = Some content"
    and malformed: "JSON_parse e (js_trim content) = None"
  shows "handleStagehandTrigger e folder triggerFilename w =
           (w\<lparr>trace := trace w @ [ShowErrorMessage ''Failed to run Stagehand to create project'']\<rparr>, [])
         \<and> existsSync (path_join e (fsPath (uri folder)) triggerFilename)
             (fst (handleStagehandTrigger e folder triggerFilename w))"
  using marker malformed
  by (simp add: handleStagehandTrigger_def emit_def existsSync_def Let_def)

text \<open>A marker that holds text which is no descriptor: the error is shown, the marker stays.\<close>

theorem stagehand_parse_failure_witness:
  "files (sample_world\<lparr>files := [''/proj/dart.sh.create'' \<mapsto> ''  {name: '']\<rparr>)
     (path_join (sample_env [folder_at ''/proj'']) (fsPath (uri (folder_at ''/proj''))) ''dart.sh.create'')
     = Some ''  {name: ''
   \<and> JSON_parse (sample_env [folder_at ''/proj'']) (js_trim ''  {name: '') = None
   \<and> handleStagehandTrigger (sample_env [folder_at ''/proj'']) (folder_at ''/proj'') ''dart.sh.create''
        (sample_world\<lparr>files := [''/proj/dart.sh.create'' \<mapsto> ''  {name: '']\<rparr>)
      = (sample_world\<lparr>files := [''/proj/dart.sh.create'' \<mapsto> ''  {name: ''],
                      trace := [ShowErrorMessage ''Failed to run Stagehand to create project'']\<rparr>, [])"
proof -
  have marker: "files (sample_world\<lparr>files := [''/proj/dart.sh.create'' \<mapsto> ''  {name: '']\<rparr>)
     (path_join (sample_env [folder_at ''/proj'']) (fsPath (uri (folder_at ''/proj''))) ''dart.sh.create'')
     = Some ''  {name: ''"
    by (simp add: sample_env_def sample_join_def folder_at_def)
  have malformed: "JSON_parse (sample_env [folder_at ''/proj'']) (js_trim ''  {name: '') = None"
    by (simp add: sample_env_def sample_parse_def console_json_def js_trim_def is_js_whitespace_def)
  show ?thesis
    using marker malformed stagehand_parse_failure [OF marker malformed]
    by (simp add: sample_world_def)
qed

text \<open>
  C5. The code departs from the claim where the base name of the folder holds a dollar
  sign. In the folder \<open>/a$$b\<close> the marker is deleted, the create command issued and, on
  code zero, package resolution issued, as the claim says. But \<open>replace\<close> expands the
  replacement text, so the entry file computed from \<open>bin/__projectName__.dart\<close> is
  \<open>bin/a$b.dart\<close> where putting the base name in gives \<open>bin/a$$b.dart\<close>: with the
  latter on disk nothing is opened, and with the former on disk that file is opened.
\<close>

theorem stagehand_entry_file_dollar:
  "trace (fst (handleStagehandTrigger (sample_env [folder_at ''/a$$b'']) (folder_at ''/a$$b'')
                 ''dart.sh.create''
                 (sample_world\<lparr>files := [''/a$$b/dart.sh.create'' \<mapsto> console_json]\<rparr>)))
     = [UnlinkSync ''/a$$b/dart.sh.create'',
        ExecuteCommand ''_dart.create'' [Str ''/a$$b'', Str ''x'']]
   \<and> snd (handleStagehandTrigger (sample_env [folder_at ''/a$$b'']) (folder_at ''/a$$b'')
                 ''dart.sh.create''
                 (sample_world\<lparr>files := [''/a$$b/dart.sh.create'' \<mapsto> console_json]\<rparr>))
     = [AwaitCreateDartProject (folder_at ''/a$$b'') console_template]
   \<and> resume (sample_env [folder_at ''/a$$b''])
        (AwaitCreateDartProject (folder_at ''/a$$b'') console_template) (Resolved 0) sample_world
     = (sample_world\<lparr>trace := [ExecuteCommand ''dart.getPackages'' [UriArg (Uri_file ''/a$$b'')]]\<rparr>,
        [AwaitGetPackages (folder_at ''/a$$b'') console_template])
   \<and> replace_literally (entrypoint console_template) ''__projectName__'' (sample_basename ''/a$$b'')
     = ''bin/a$$b.dart''
   \<and> js_replace (entrypoint console_template) ''__projectName__'' (sample_basename ''/a$$b'')
     = ''bin/a$b.dart''
   \<and> trace (fst (resume (sample_env [folder_at ''/a$$b''])
                  (AwaitGetPackages (folder_at ''/a$$b'') console_template) (Resolved 0)
                  (sample_world\<lparr>files := [''/a$$b/bin/a$$b.dart'' \<mapsto> ''main() {}'']\<rparr>)))
     = [ShowInformationMessage ''Console App project ready!'' []]
   \<and> trace (fst (resume (sample_env [folder_at ''/a$$b''])
                  (AwaitGetPackages (folder_at ''/a$$b'') console_template) (Resolved 0)
                  (sample_world\<lparr>files := [''/a$$b/bin/a$b.dart'' \<mapsto> ''main() {}'']\<rparr>)))
     = [ExecuteCommand ''vscode.open'' [UriArg (Uri_file ''/a$$b/bin/a$b.dart'')],
        ShowInformationMessage ''Console App project ready!'' []]"
proof -
  have untrimmed: "js_trim console_json = console_json"
    by (simp add: js_trim_def console_json_def is_js_whitespace_def)
  have sync: "handleStagehandTrigger (sample_env [folder_at ''/a$$b'']) (folder_at ''/a$$b'')
                 ''dart.sh.create''
                 (sample_world\<lparr>files := [''/a$$b/dart.sh.create'' \<mapsto> console_json]\<rparr>)
     = (sample_world\<lparr>files := [''/a$$b/dart.sh.create'' \<mapsto> console_json]
                                  (''/a$$b/dart.sh.create'' := None),
          trace := [UnlinkSync ''/a$$b/dart.sh.create'',
                    ExecuteCommand ''_dart.create'' [Str ''/a$$b'', Str ''x'']]\<rparr>,
        [AwaitCreateDartProject (folder_at ''/a$$b'') console_template])"
    by (simp add: handleStagehandTrigger_def createDartProject_def unlinkSync_def emit_def Let_def
          untrimmed sample_env_def sample_parse_def sample_join_def folder_at_def sample_world_def
          console_template_def)
  have rest: "resume (sample_env [folder_at ''/a$$b''])
        (AwaitCreateDartProject (folder_at ''/a$$b'') console_template) (Resolved 0) sample_world
     = (sample_world\<lparr>trace := [ExecuteCommand ''dart.getPackages'' [UriArg (Uri_file ''/a$$b'')]]\<rparr>,
        [AwaitGetPackages (folder_at ''/a$$b'') console_template])
   \<and> replace_literally (entrypoint console_template) ''__projectName__'' (sample_basename ''/a$$b'')
     = ''bin/a$$b.dart''
   \<and> js_replace (entrypoint console_template) ''__projectName__'' (sample_basename ''/a$$b'')
     = ''bin/a$b.dart''
   \<and> trace (fst (resume (sample_env [folder_at ''/a$$b''])
                  (AwaitGetPackages (folder_at ''/a$$b'') console_template) (Resolved 0)
                  (sample_world\<lparr>files := [''/a$$b/bin/a$$b.dart'' \<mapsto> ''main() {}'']\<rparr>)))
     = [ShowInformationMessage ''Console App project ready!'' []]
   \<and> trace (fst (resume (sample_env [folder_at ''/a$$b''])
                  (AwaitGetPackages (folder_at ''/a$$b'') console_template) (Resolved 0)
                  (sample_world\<lparr>files := [''/a$$b/bin/a$b.dart'' \<mapsto> ''main() {}'']\<rparr>)))
     = [ExecuteCommand ''vscode.open'' [UriArg (Uri_file ''/a$$b/bin/a$b.dart'')],
        ShowInformationMessage ''Console App project ready!'' []]"
    by (simp add: handleDartWelcome_def existsSync_def emit_def sample_env_def sample_world_def
        sample_join_def sample_basename_def folder_at_def console_template_def
        js_replace_def replace_literally_def)
  show ?thesis
    unfolding sync using rest by simp
qed

text \<open>
  The handling of a parsed descriptor in any folder. The marker is deleted, then the create
  command is issued with the folder path and the descriptor's name, and the handler waits.
  Package resolution is issued when that command resolves with code zero, and in no other
  case: any other code, and a rejection, end the handling. When package resolution
  resolves, the entry file is opened if it exists at that time, and the message naming the
  template's label is shown either way; a rejection ends the handling. The entry file is the
  folder path joined with what \<open>replace\<close> makes of the entrypoint, and for a base name with
  no dollar sign that is the entrypoint with the placeholder replaced by the base name.
\<close>

lemma stagehand_descriptor_handled:
  assumes marker: "files w (path_join e (fsPath (uri folder)) triggerFilename) = Some content"
    and parsed: "JSON_parse e (js_trim content) = Some template"
  shows "handleStagehandTrigger e folder triggerFilename w =
           (w\<lparr>files := (files w)(path_join e (fsPath (uri folder)) triggerFilename := None),
              trace := trace w @
                [UnlinkSync (path_join e (fsPath (uri folder)) triggerFilename),
                 ExecuteCommand ''_dart.create'' [Str (fsPath (uri folder)), Str (name template)]]\<rparr>,
            [AwaitCreateDartProject folder template])
       \<and> resume e (AwaitCreateDartProject folder template) (Resolved code) w1 =
           (if code = 0
            then (w1\<lparr>trace := trace w1 @ [ExecuteCommand ''dart.getPackages'' [UriArg (uri folder)]]\<rparr>,
                  [AwaitGetPackages folder template])
            else (w1, []))
       \<and> resume e (AwaitCreateDartProject folder template) (Rejected msg) w1 = (w1, [])
       \<and> resume e (AwaitGetPackages folder template) (Resolved v) w2 =
           (w2\<lparr>trace := trace w2 @
                (if existsSync
                      (path_join e (fsPath (uri folder))
                         (js_replace (entrypoint template) ''__projectName__''
                            (path_basename e (fsPath (uri folder))))) w2
                 then [ExecuteCommand ''vscode.open''
                         [UriArg (Uri_file
                            (path_join e (fsPath (uri folder))
                               (js_replace (entrypoint template) ''__projectName__''
                                  (path_basename e (fsPath (uri folder))))))]]
                 else []) @
                [ShowInformationMessage (label template @ '' project ready!'') []]\<rparr>,
            [])
       \<and> resume e (AwaitGetPackages folder template) (Rejected msg) w2 = (w2, [])
       \<and> (CHR ''$'' \<notin> set (path_basename e (fsPath (uri folder))) \<longrightarrow>
            js_replace (entrypoint template) ''__projectName__'' (path_basename e (fsPath (uri folder)))
            = replace_literally (entrypoint template) ''__projectName__''
                (path_basename e (fsPath (uri folder))))"
proof -
  have sync: "handleStagehandTrigger e folder triggerFilename w =
           (w\<lparr>files := (files w)(path_join e (fsPath (uri folder)) triggerFilename := None),
              trace := trace w @
                [UnlinkSync (path_join e (fsPath (uri folder)) triggerFilename),
                 ExecuteCommand ''_dart.create'' [Str (fsPath (uri folder)), Str (name template)]]\<rparr>,
            [AwaitCreateDartProject folder template])"
    using marker parsed
    by (simp add: handleStagehandTrigger_def createDartProject_def unlinkSync_def emit_def Let_def)
  have created: "resume e (AwaitCreateDartProject folder template) (Resolved code) w1 =
           (if code = 0
            then (w1\<lparr>trace := trace w1 @ [ExecuteCommand ''dart.getPackages'' [UriArg (uri folder)]]\<rparr>,
                  [AwaitGetPackages folder template])
            else (w1, []))"
    by (simp add: emit_def)
  have greeted: "resume e (AwaitGetPackages folder template) (Resolved v) w2 =
           (w2\<lparr>trace := trace w2 @
                (if existsSync
                      (path_join e (fsPath (uri folder))
                         (js_replace (entrypoint template) ''__projectName__''
                            (path_basename e (fsPath (uri folder))))) w2
                 then [ExecuteCommand ''vscode.open''
                         [UriArg (Uri_file
                            (path_join e (fsPath (uri folder))
                               (js_replace (entrypoint template) ''__projectName__''
                                  (path_basename e (fsPath (uri folder))))))]]
                 else []) @
                [ShowInformationMessage (label template @ '' project ready!'') []]\<rparr>,
            [])"
    by (simp add: handleDartWelcome_def emit_def existsSync_def Let_def)
  show ?thesis
    using sync created greeted by (simp add: js_replace_no_dollar)
qed

text \<open>
  The console template in \<open>/proj\<close>: the marker is deleted and the create command issued;
  on code zero package resolution is issued; then, the entry file being there,
  \<open>/proj/bin/proj.dart\<close> is opened and the message shown.
\<close>

lemma stagehand_descriptor_handled_example:
  "trace (fst (handleStagehandTrigger (sample_env [folder_at ''/proj'']) (folder_at ''/proj'')
                    ''dart.sh.create''
                    (sample_world\<lparr>files := [''/proj/dart.sh.create'' \<mapsto> console_json]\<rparr>)))
     = [UnlinkSync ''/proj/dart.sh.create'',
        ExecuteCommand ''_dart.create'' [Str ''/proj'', Str ''x'']]
   \<and> files (fst (handleStagehandTrigger (sample_env [folder_at ''/proj'']) (folder_at ''/proj'')
                    ''dart.sh.create''
                    (sample_world\<lparr>files := [''/proj/dart.sh.create'' \<mapsto> console_json]\<rparr>)))
        ''/proj/dart.sh.create'' = None
   \<and> resume (sample_env [folder_at ''/proj'']) (AwaitCreateDartProject (folder_at ''/proj'') console_template)
        (Resolved 0) sample_world
     = (sample_world\<lparr>trace := [ExecuteCommand ''dart.getPackages'' [UriArg (Uri_file ''/proj'')]]\<rparr>,
        [AwaitGetPackages (folder_at ''/proj'') console_template])
   \<and> trace (fst (resume (sample_env [folder_at ''/proj''])
                    (AwaitGetPackages (folder_at ''/proj'') console_template) (Resolved 0)
                    (sample_world\<lparr>files := [''/proj/bin/proj.dart'' \<mapsto> ''main() {}'']\<rparr>)))
     = [ExecuteCommand ''vscode.open'' [UriArg (Uri_file ''/proj/bin/proj.dart'')],
        ShowInformationMessage ''Console App project ready!'' []]"
proof -
  have marker: "files (sample_world\<lparr>files := [''/proj/dart.sh.create'' \<mapsto> console_json]\<rparr>)
      (path_join (sample_env [folder_at ''/proj'']) (fsPath (uri (folder_at ''/proj''))) ''dart.sh.create'')
     = Some console_json"
    by (simp add: sample_env_def sample_join_def folder_at_def)
  have untrimmed: "js_trim console_json = console_json"
    by (simp add: js_trim_def console_json_def is_js_whitespace_def)
  have parsed: "JSON_parse (sample_env [folder_at ''/proj'']) (js_trim console_json) = Some console_template"
    by (simp add: untrimmed sample_env_def sample_parse_def)
  have base: "path_basename (sample_env [folder_at ''/proj'']) (fsPath (uri (folder_at ''/proj''))) = ''proj''"
    by (simp add: sample_env_def sample_basename_def folder_at_def)
  have entry: "path_join (sample_env [folder_at ''/proj'']) (fsPath (uri (folder_at ''/proj'')))
                 (js_replace (entrypoint console_template) ''__projectName__'' ''proj'')
               = ''/proj/bin/proj.dart''"
    by (simp add: sample_env_def sample_join_def folder_at_def console_template_def js_replace_def)
  have names: "name console_template = ''x''" "label console_template = ''Console App''"
      "fsPath (uri (folder_at ''/proj'')) = ''/proj''" "uri (folder_at ''/proj'') = Uri_file ''/proj''"
      "path_join (sample_env [folder_at ''/proj'']) ''/proj'' ''dart.sh.create'' = ''/proj/dart.sh.create''"
    by (simp_all add: console_template_def folder_at_def sample_env_def sample_join_def)
  show ?thesis
    using stagehand_descriptor_handled [OF marker parsed, of 0 sample_world "[]" 0
        "sample_world\<lparr>files := [''/proj/bin/proj.dart'' \<mapsto> ''main() {}'']\<rparr>"]
    unfolding base entry
    by (simp add: names existsSync_def sample_world_def)
qed

section \<open>Trigger files: the Flutter create marker\<close>

text \<open>
  C6. When the marker file of the Flutter create trigger exists, the handler trims its
  content and takes an empty result for an absent sample identifier; it deletes the marker
  and then issues the Flutter create command, with the project name "sample" and the
  identifier when there is one, and with both undefined otherwise. A marker holding only
  white space gives no identifier, and after a creation with code zero the entry file is
  opened if it exists and the generic ready message, which names no identifier, is shown.
\<close>

theorem flutter_create_trigger:
  assumes marker:
    "files w (path_join e (fsPath (uri folder)) (FLUTTER_CREATE_PROJECT_TRIGGER_FILE e)) = Some content"
  shows "handleFlutterCreateTrigger e folder w =
           (w\<lparr>files := (files w)
                  (path_join e (fsPath (uri folder)) (FLUTTER_CREATE_PROJECT_TRIGGER_FILE e) := None),
              trace := trace w @
                [UnlinkSync (path_join e (fsPath (uri folder)) (FLUTTER_CREATE_PROJECT_TRIGGER_FILE e)),
                 ExecuteCommand ''_flutter.create''
                   (if js_trim content = [] then [Str (fsPath (uri folder)), Undefined, Undefined]
                    else [Str (fsPath (uri folder)), Str ''sample'', Str (js_trim content)])]\<rparr>,
            [AwaitCreateFlutterProject folder
               (if js_trim content = [] then None else Some (js_trim content))])
       \<and> (list_all is_js_whitespace content \<longrightarrow>
            snd (handleFlutterCreateTrigger e folder w) = [AwaitCreateFlutterProject folder None])
       \<and> resume e (AwaitCreateFlutterProject folder None) (Resolved 0) w1 =
           (w1\<lparr>trace := trace w1 @
                (if existsSync (path_join e (fsPath (uri folder)) ''lib/main.dart'') w1
                 then [ExecuteCommand ''vscode.open''
                         [UriArg (Uri_file (path_join e (fsPath (uri folder)) ''lib/main.dart''))]]
                 else []) @
                [ShowInformationMessage
                   ''Your Flutter project is ready! Connect a device and press F5 to start running.'' []]\<rparr>,
            [])"
proof -
  have sync: "handleFlutterCreateTrigger e folder w =
           (w\<lparr>files := (files w)
                  (path_join e (fsPath (uri folder)) (FLUTTER_CREATE_PROJECT_TRIGGER_FILE e) := None),
              trace := trace w @
                [UnlinkSync (path_join e (fsPath (uri folder)) (FLUTTER_CREATE_PROJECT_TRIGGER_FILE e)),
                 ExecuteCommand ''_flutter.create''
                   (if js_trim content = [] then [Str (fsPath (uri folder)), Undefined, Undefined]
                    else [Str (fsPath (uri folder)), Str ''sample'', Str (js_trim content)])]\<rparr>,
            [AwaitCreateFlutterProject folder
               (if js_trim content = [] then None else Some (js_trim content))])"
    using marker
    by (simp add: handleFlutterCreateTrigger_def createFlutterProject_def unlinkSync_def emit_def
          truthy_def opt_arg_def Let_def)
  have blank: "list_all is_js_whitespace content \<longrightarrow>
            snd (handleFlutterCreateTrigger e folder w) = [AwaitCreateFlutterProject folder None]"
    by (simp add: sync js_trim_whitespace)
  have greeted: "resume e (AwaitCreateFlutterProject folder None) (Resolved 0) w1 =
           (w1\<lparr>trace := trace w1 @
                (if existsSync (path_join e (fsPath (uri folder)) ''lib/main.dart'') w1
                 then [ExecuteCommand ''vscode.open''
                         [UriArg (Uri_file (path_join e (fsPath (uri folder)) ''lib/main.dart''))]]
                 else []) @
                [ShowInformationMessage
                   ''Your Flutter project is ready! Connect a device and press F5 to start running.'' []]\<rparr>,
            [])"
    by (simp add: handleFlutterWelcome_def emit_def Let_def)
  show ?thesis
    using sync blank greeted by simp
qed

text \<open>
  A marker with a blank and a line feed: the command gets no name and no identifier, and the
  generic message follows the creation. A marker with an identifier between blanks: the
  command gets "sample" and the trimmed identifier.
\<close>

theorem flutter_create_trigger_witness:
  "files (sample_world\<lparr>files := [''/proj/flutter.create'' \<mapsto> [CHR 0x20, CHR 0x0A]]\<rparr>)
      (path_join (sample_env [folder_at ''/proj'']) (fsPath (uri (folder_at ''/proj'')))
         (FLUTTER_CREATE_PROJECT_TRIGGER_FILE (sample_env [folder_at ''/proj''])))
     = Some [CHR 0x20, CHR 0x0A]
   \<and> list_all is_js_whitespace [CHR 0x20, CHR 0x0A]
   \<and> trace (fst (handleFlutterCreateTrigger (sample_env [folder_at ''/proj'']) (folder_at ''/proj'')
                    (sample_world\<lparr>files := [''/proj/flutter.create'' \<mapsto> [CHR 0x20, CHR 0x0A]]\<rparr>)))
     = [UnlinkSync ''/proj/flutter.create'',
        ExecuteCommand ''_flutter.create'' [Str ''/proj'', Undefined, Undefined]]
   \<and> snd (handleFlutterCreateTrigger (sample_env [folder_at ''/proj'']) (folder_at ''/proj'')
             (sample_world\<lparr>files := [''/proj/flutter.create'' \<mapsto> [CHR 0x20, CHR 0x0A]]\<rparr>))
     = [AwaitCreateFlutterProject (folder_at ''/proj'') None]
   \<and> resume (sample_env [folder_at ''/proj'']) (AwaitCreateFlutterProject (folder_at ''/proj'') None)
        (Resolved 0) sample_world
     = (sample_world\<lparr>trace := [ShowInformationMessage
          ''Your Flutter project is ready! Connect a device and press F5 to start running.'' []]\<rparr>, [])
   \<and> trace (fst (handleFlutterCreateTrigger (sample_env [folder_at ''/proj'']) (folder_at ''/proj'')
                    (sample_world\<lparr>files := [''/proj/flutter.create'' \<mapsto> '' widgets.Chip.1 '']\<rparr>)))
     = [UnlinkSync ''/proj/flutter.create'',
        ExecuteCommand ''_flutter.create'' [Str ''/proj'', Str ''sample'', Str ''widgets.Chip.1'']]"
proof -
  have tf: "path_join (sample_env [folder_at ''/proj'']) (fsPath (uri (folder_at ''/proj'')))
         (FLUTTER_CREATE_PROJECT_TRIGGER_FILE (sample_env [folder_at ''/proj'']))
       = ''/proj/flutter.create''"
    by (simp add: sample_env_def sample_join_def folder_at_def)
  have marker: "files (sample_world\<lparr>files := [''/proj/flutter.create'' \<mapsto> [CHR 0x20, CHR 0x0A]]\<rparr>)
      (path_join (sample_env [folder_at ''/proj'']) (fsPath (uri (folder_at ''/proj'')))
         (FLUTTER_CREATE_PROJECT_TRIGGER_FILE (sample_env [folder_at ''/proj''])))
     = Some [CHR 0x20, CHR 0x0A]"
    by (simp add: tf)
  have marker': "files (sample_world\<lparr>files := [''/proj/flutter.create'' \<mapsto> '' widgets.Chip.1 '']\<rparr>)
      (path_join (sample_env [folder_at ''/proj'']) (fsPath (uri (folder_at ''/proj'')))
         (FLUTTER_CREATE_PROJECT_TRIGGER_FILE (sample_env [folder_at ''/proj''])))
     = Some '' widgets.Chip.1 ''"
    by (simp add: tf)
  have blank: "list_all is_js_whitespace [CHR 0x20, CHR 0x0A]"
    by (simp add: is_js_whitespace_def)
  have trimmed: "js_trim [CHR 0x20, CHR 0x0A] = []" "js_trim '' widgets.Chip.1 '' = ''widgets.Chip.1''"
    by (simp_all add: js_trim_def is_js_whitespace_def)
  have lib: "path_join (sample_env [folder_at ''/proj'']) (fsPath (uri (folder_at ''/proj''))) ''lib/main.dart''
       = ''/proj/lib/main.dart''"
    by (simp add: sample_env_def sample_join_def folder_at_def)
  have path: "fsPath (uri (folder_at ''/proj'')) = ''/proj''"
    by (simp add: folder_at_def)
  have joined: "path_join (sample_env [folder_at ''/proj'']) ''/proj''
         (FLUTTER_CREATE_PROJECT_TRIGGER_FILE (sample_env [folder_at ''/proj'']))
       = ''/proj/flutter.create''"
      "path_join (sample_env [folder_at ''/proj'']) ''/proj'' ''lib/main.dart'' = ''/proj/lib/main.dart''"
    using tf lib by (simp_all add: path)
  show ?thesis
    using marker blank
      flutter_create_trigger [OF marker, of sample_world]
      flutter_create_trigger [OF marker', of sample_world]
    unfolding trimmed path joined
    by (simp add: existsSync_def sample_world_def)
qed

section \<open>Trigger files: the order of handling\<close>

lemma forEach_append:
  "forEach e (xs @ ys) w =
     (case forEach e xs w of
        (w1, p1) \<Rightarrow> (case forEach e ys w1 of (w2, p2) \<Rightarrow> (w2, p1 @ p2)))"
  by (induction xs arbitrary: w) (auto split: prod.splits)

lemma handleStagehandTrigger_events:
  "\<exists>evs. trace (fst (handleStagehandTrigger e folder triggerFilename w)) = trace w @ evs
         \<and> list_all is_trigger_event evs
         \<and> list_all is_create_pending (snd (handleStagehandTrigger e folder triggerFilename w))"
  by (simp add: handleStagehandTrigger_def createDartProject_def unlinkSync_def emit_def Let_def
        split: option.splits)

lemma handleFlutterCreateTrigger_events:
  "\<exists>evs. trace (fst (handleFlutterCreateTrigger e folder w)) = trace w @ evs
         \<and> list_all is_trigger_event evs
         \<and> list_all is_create_pending (snd (handleFlutterCreateTrigger e folder w))"
  by (simp add: handleFlutterCreateTrigger_def createFlutterProject_def unlinkSync_def emit_def
        Let_def split: option.splits)

lemma handleFolder_events:
  "\<exists>evs. trace (fst (handleFolder e folder w)) = trace w @ evs
         \<and> list_all is_trigger_event evs
         \<and> list_all is_create_pending (snd (handleFolder e folder w))"
proof -
  obtain w1 p1 where s1: "handleStagehandTrigger e folder (DART_STAGEHAND_PROJECT_TRIGGER_FILE e) w = (w1, p1)"
    by (cases "handleStagehandTrigger e folder (DART_STAGEHAND_PROJECT_TRIGGER_FILE e) w")
  obtain w2 p2 where s2: "handleStagehandTrigger e folder (FLUTTER_STAGEHAND_PROJECT_TRIGGER_FILE e) w1 = (w2, p2)"
    by (cases "handleStagehandTrigger e folder (FLUTTER_STAGEHAND_PROJECT_TRIGGER_FILE e) w1")
  obtain w3 p3 where s3: "handleFlutterCreateTrigger e folder w2 = (w3, p3)"
    by (cases "handleFlutterCreateTrigger e folder w2")
  obtain evs1 where e1: "trace w1 = trace w @ evs1" "list_all is_trigger_event evs1" "list_all is_create_pending p1"
    using handleStagehandTrigger_events [of e folder "DART_STAGEHAND_PROJECT_TRIGGER_FILE e" w] s1 by auto
  obtain evs2 where e2: "trace w2 = trace w1 @ evs2" "list_all is_trigger_event evs2" "list_all is_create_pending p2"
    using handleStagehandTrigger_events [of e folder "FLUTTER_STAGEHAND_PROJECT_TRIGGER_FILE e" w1] s2 by auto
  obtain evs3 where e3: "trace w3 = trace w2 @ evs3" "list_all is_trigger_event evs3" "list_all is_create_pending p3"
    using handleFlutterCreateTrigger_events [of e folder w2] s3 by auto
  have "trace w3 = trace w @ (evs1 @ evs2 @ evs3)"
    by (simp add: e1 e2 e3)
  moreover have "list_all is_trigger_event (evs1 @ evs2 @ evs3)"
    by (simp add: e1 e2 e3)
  moreover have "list_all is_create_pending (p1 @ p2 @ p3)"
    by (simp add: e1 e2 e3)
  ultimately show ?thesis
    by (simp add: handleFolder_def s1 s2 s3)
qed

lemma forEach_events:
  "\<exists>evs. trace (fst (forEach e folders w)) = trace w @ evs
         \<and> list_all is_trigger_event evs
         \<and> list_all is_create_pending (snd (forEach e folders w))"
proof (induction folders arbitrary: w)
  case Nil
  show ?case by simp
next
  case (Cons folder folders)
  obtain w1 p1 where h: "handleFolder e folder w = (w1, p1)"
    by (cases "handleFolder e folder w")
  obtain w2 p2 where r: "forEach e folders w1 = (w2, p2)"
    by (cases "forEach e folders w1")
  obtain evs1 where e1: "trace w1 = trace w @ evs1" "list_all is_trigger_event evs1" "list_all is_create_pending p1"
    using handleFolder_events [of e folder w] h by auto
  obtain evs2 where e2: "trace w2 = trace w1 @ evs2" "list_all is_trigger_event evs2" "list_all is_create_pending p2"
    using Cons.IH [of w1] r by auto
  have "trace w2 = trace w @ (evs1 @ evs2)"
    by (simp add: e1 e2)
  moreover have "list_all is_trigger_event (evs1 @ evs2)"
    by (simp add: e1 e2)
  moreover have "list_all is_create_pending (p1 @ p2)"
    by (simp add: e1 e2)
  ultimately show ?case
    by (simp add: h r)
qed

lemma two_folder_pass:
  "handleNewProjects (sample_env [folder_at ''/a'', folder_at ''/b''])
          (sample_world\<lparr>files := [''/a/dart.sh.create'' \<mapsto> console_json,
                                   ''/a/flutter.create'' \<mapsto> '''',
                                   ''/b/dart.sh.create'' \<mapsto> console_json]\<rparr>)
      = (sample_world\<lparr>files := [''/a/dart.sh.create'' \<mapsto> console_json,
                                   ''/a/flutter.create'' \<mapsto> '''',
                                   ''/b/dart.sh.create'' \<mapsto> console_json]
                                  (''/a/dart.sh.create'' := None, ''/a/flutter.create'' := None,
                                   ''/b/dart.sh.create'' := None),
          trace := [UnlinkSync ''/a/dart.sh.create'',
        ExecuteCommand ''_dart.create'' [Str ''/a'', Str ''x''],
        UnlinkSync ''/a/flutter.create'',
        ExecuteCommand ''_flutter.create'' [Str ''/a'', Undefined, Undefined],
        UnlinkSync ''/b/dart.sh.create'',
        ExecuteCommand ''_dart.create'' [Str ''/b'', Str ''x'']]\<rparr>,
         [AwaitCreateDartProject (folder_at ''/a'') console_template,
        AwaitCreateFlutterProject (folder_at ''/a'') None,
        AwaitCreateDartProject (folder_at ''/b'') console_template])"
proof -
  have untrimmed: "js_trim console_json = console_json" "js_trim '''' = ''''"
    by (simp_all add: js_trim_def console_json_def is_js_whitespace_def)
  have differ: "console_json \<noteq> ''''"
    by (simp add: console_json_def)
  show ?thesis
    by (simp add: handleNewProjects_def handleFolder_def handleStagehandTrigger_def
          handleFlutterCreateTrigger_def createDartProject_def createFlutterProject_def
          unlinkSync_def emit_def truthy_def opt_arg_def Let_def untrimmed differ
          sample_env_def sample_parse_def sample_join_def folder_at_def sample_world_def
          console_template_def)
qed

text \<open>
  C7, as stated, fails. Folder \<open>/a\<close> holds a scaffolding marker and a Flutter create
  marker, folder \<open>/b\<close> a scaffolding marker. When the pass over the folders returns, the
  marker of \<open>/b\<close> is deleted and its create command issued, and so is the second marker
  of \<open>/a\<close>, while all three handlers are still pending; the package resolution of
  \<open>/a\<close> comes after the events of \<open>/b\<close>.
\<close>

theorem trigger_handling_counterexample:
  "trace (fst (handleNewProjects (sample_env [folder_at ''/a'', folder_at ''/b''])
          (sample_world\<lparr>files := [''/a/dart.sh.create'' \<mapsto> console_json,
                                   ''/a/flutter.create'' \<mapsto> '''',
                                   ''/b/dart.sh.create'' \<mapsto> console_json]\<rparr>)))
     = [UnlinkSync ''/a/dart.sh.create'',
        ExecuteCommand ''_dart.create'' [Str ''/a'', Str ''x''],
        UnlinkSync ''/a/flutter.create'',
        ExecuteCommand ''_flutter.create'' [Str ''/a'', Undefined, Undefined],
        UnlinkSync ''/b/dart.sh.create'',
        ExecuteCommand ''_dart.create'' [Str ''/b'', Str ''x'']]
   \<and> snd (handleNewProjects (sample_env [folder_at ''/a'', folder_at ''/b''])
          (sample_world\<lparr>files := [''/a/dart.sh.create'' \<mapsto> console_json,
                                   ''/a/flutter.create'' \<mapsto> '''',
                                   ''/b/dart.sh.create'' \<mapsto> console_json]\<rparr>))
     = [AwaitCreateDartProject (folder_at ''/a'') console_template,
        AwaitCreateFlutterProject (folder_at ''/a'') None,
        AwaitCreateDartProject (folder_at ''/b'') console_template]
   \<and> trace (fst (resume (sample_env [folder_at ''/a'', folder_at ''/b''])
                    (AwaitCreateDartProject (folder_at ''/a'') console_template) (Resolved 0)
                    (fst (handleNewProjects (sample_env [folder_at ''/a'', folder_at ''/b''])
                       (sample_world\<lparr>files := [''/a/dart.sh.create'' \<mapsto> console_json,
                                   ''/a/flutter.create'' \<mapsto> '''',
                                   ''/b/dart.sh.create'' \<mapsto> console_json]\<rparr>)))))
     = [UnlinkSync ''/a/dart.sh.create'',
        ExecuteCommand ''_dart.create'' [Str ''/a'', Str ''x''],
        UnlinkSync ''/a/flutter.create'',
        ExecuteCommand ''_flutter.create'' [Str ''/a'', Undefined, Undefined],
        UnlinkSync ''/b/dart.sh.create'',
        ExecuteCommand ''_dart.create'' [Str ''/b'', Str ''x''],
        ExecuteCommand ''dart.getPackages'' [UriArg (Uri_file ''/a'')]]"
  unfolding two_folder_pass by (simp add: emit_def folder_at_def)

text \<open>
  C7, amended. The pass over the workspace folders is synchronous: handling a list of
  folders is handling a first part and then the rest from the world the first part left,
  and one folder is handled by the first scaffolding check, then the second, then the
  Flutter create check, each from the world its predecessor left. The pass only deletes
  markers, shows parse errors and issues create commands; whatever follows a create
  command (package resolution, opening the entry file, the ready message) is left pending
  when the pass returns, and runs later.
\<close>

theorem trigger_pass_in_order:
  "forEach e (xs @ ys) w =
     (case forEach e xs w of
        (w1, p1) \<Rightarrow> (case forEach e ys w1 of (w2, p2) \<Rightarrow> (w2, p1 @ p2)))
   \<and> forEach e (folder # folders) w =
     (case handleStagehandTrigger e folder (DART_STAGEHAND_PROJECT_TRIGGER_FILE e) w of
        (w1, p1) \<Rightarrow>
          (case handleStagehandTrigger e folder (FLUTTER_STAGEHAND_PROJECT_TRIGGER_FILE e) w1 of
             (w2, p2) \<Rightarrow>
               (case handleFlutterCreateTrigger e folder w2 of
                  (w3, p3) \<Rightarrow>
                    (case forEach e folders w3 of
                       (w4, p4) \<Rightarrow> (w4, p1 @ p2 @ p3 @ p4)))))
   \<and> take (length (trace w)) (trace (fst (handleNewProjects e w))) = trace w
   \<and> list_all is_trigger_event (drop (length (trace w)) (trace (fst (handleNewProjects e w))))
   \<and> list_all is_create_pending (snd (handleNewProjects e w))"
proof -
  have step: "forEach e (folder # folders) w =
     (case handleStagehandTrigger e folder (DART_STAGEHAND_PROJECT_TRIGGER_FILE e) w of
        (w1, p1) \<Rightarrow>
          (case handleStagehandTrigger e folder (FLUTTER_STAGEHAND_PROJECT_TRIGGER_FILE e) w1 of
             (w2, p2) \<Rightarrow>
               (case handleFlutterCreateTrigger e folder w2 of
                  (w3, p3) \<Rightarrow>
                    (case forEach e folders w3 of
                       (w4, p4) \<Rightarrow> (w4, p1 @ p2 @ p3 @ p4)))))"
    by (simp add: handleFolder_def split: prod.splits)
  obtain evs where evs: "trace (fst (handleNewProjects e w)) = trace w @ evs"
      "list_all is_trigger_event evs" "list_all is_create_pending (snd (handleNewProjects e w))"
    using forEach_events [of e "getDartWorkspaceFolders e" w]
    by (auto simp add: handleNewProjects_def)
  show ?thesis
    using forEach_append [of e xs ys w] step evs by simp
qed

text \<open>
  The two folders of the counterexample: the pass emits six events, all of them deletions
  and create commands, and leaves three handlers pending, each waiting for its create
  command.
\<close>

theorem trigger_pass_in_order_witness:
  "drop (length (trace (sample_world\<lparr>files := [''/a/dart.sh.create'' \<mapsto> console_json,
                                   ''/a/flutter.create'' \<mapsto> '''',
                                   ''/b/dart.sh.create'' \<mapsto> console_json]\<rparr>)))
     (trace (fst (handleNewProjects (sample_env [folder_at ''/a'', folder_at ''/b''])
          (sample_world\<lparr>files := [''/a/dart.sh.create'' \<mapsto> console_json,
                                   ''/a/flutter.create'' \<mapsto> '''',
                                   ''/b/dart.sh.create'' \<mapsto> console_json]\<rparr>))))
     = [UnlinkSync ''/a/dart.sh.create'',
        ExecuteCommand ''_dart.create'' [Str ''/a'', Str ''x''],
        UnlinkSync ''/a/flutter.create'',
        ExecuteCommand ''_flutter.create'' [Str ''/a'', Undefined, Undefined],
        UnlinkSync ''/b/dart.sh.create'',
        ExecuteCommand ''_dart.create'' [Str ''/b'', Str ''x'']]
   \<and> list_all is_create_pending
        (snd (handleNewProjects (sample_env [folder_at ''/a'', folder_at ''/b''])
          (sample_world\<lparr>files := [''/a/dart.sh.create'' \<mapsto> console_json,
                                   ''/a/flutter.create'' \<mapsto> '''',
                                   ''/b/dart.sh.create'' \<mapsto> console_json]\<rparr>)))
   \<and> list_all is_trigger_event
        (drop (length (trace (sample_world\<lparr>files := [''/a/dart.sh.create'' \<mapsto> console_json,
                                   ''/a/flutter.create'' \<mapsto> '''',
                                   ''/b/dart.sh.create'' \<mapsto> console_json]\<rparr>)))
          (trace (fst (handleNewProjects (sample_env [folder_at ''/a'', folder_at ''/b''])
            (sample_world\<lparr>files := [''/a/dart.sh.create'' \<mapsto> console_json,
                                   ''/a/flutter.create'' \<mapsto> '''',
                                   ''/b/dart.sh.create'' \<mapsto> console_json]\<rparr>)))))"
  using trigger_pass_in_order [of "sample_env [folder_at ''/a'', folder_at ''/b'']" "[]" "[]"
      "sample_world\<lparr>files := [''/a/dart.sh.create'' \<mapsto> console_json,
                                   ''/a/flutter.create'' \<mapsto> '''',
                                   ''/b/dart.sh.create'' \<mapsto> console_json]\<rparr>"
      "folder_at ''/a''" "[]"]
  unfolding two_folder_pass
  by (simp add: sample_world_def)

end
